theory Spec2Isabelle
  imports Main "HOL-Library.Multiset"
begin

section \<open>JavaScript strings and arrays\<close>

text \<open>
  A JavaScript string is modelled as the list of its code units, restricted to the
  code units below 256 that \<^typ>\<open>char\<close> offers. \<open>isWhiteSpace\<close> holds for the
  white space and line terminator code units of ECMAScript in that range, which are
  the ones \<open>String.prototype.trim\<close> strips.
\<close>

definition LF :: char where
  "LF = CHR 0x0A"

definition isWhiteSpace :: "char \<Rightarrow> bool" where
  "isWhiteSpace c \<longleftrightarrow>
     c \<in> set [CHR 0x09, CHR 0x0A, CHR 0x0B, CHR 0x0C, CHR 0x0D, CHR 0x20, CHR 0xA0]"

text \<open>\<open>s.trim()\<close>\<close>

definition trim :: "string \<Rightarrow> string" where
  "trim s = rev (dropWhile isWhiteSpace (rev (dropWhile isWhiteSpace s)))"

text \<open>
  \<open>s.split(sep)\<close> for a one-character separator: the result always has at least one
  element (\<open>''''.split(sep)\<close> is \<open>['''']\<close>).
\<close>

fun split :: "char \<Rightarrow> string \<Rightarrow> string list" where
  "split sep [] = [[]]"
| "split sep (c # cs) =
     (if c = sep then [] # split sep cs
      else (case split sep cs of [] \<Rightarrow> [[c]] | x # xs \<Rightarrow> (c # x) # xs))"

text \<open>
  \<open>xs.splice(start, deleteCount, ...items)\<close>, returning the array as it is after the
  call: a negative \<open>start\<close> counts from the end and is clamped to 0, a \<open>start\<close>
  beyond the end is clamped to the length, and \<open>deleteCount\<close> is clamped to what
  is there.
\<close>

definition splice_js :: "int \<Rightarrow> int \<Rightarrow> 'a list \<Rightarrow> 'a list \<Rightarrow> 'a list" where
  "splice_js start deleteCount items xs =
     (let len = int (length xs);
          actualStart = (if start < 0 then max (len + start) 0 else min start len);
          actualDeleteCount = min (max deleteCount 0) (len - actualStart)
      in take (nat actualStart) xs @ items @ drop (nat (actualStart + actualDeleteCount)) xs)"

section \<open>Command Gateway (NPConfig.ts)\<close>

text \<open>
  Callbacks are opaque tokens: \<open>'b\<close> for buffered callbacks, \<open>'s\<close> for streaming
  ones. What a gateway operation does to the outside is returned as a list of effects,
  in the order the code performs them: spawning the utility, and invoking a callback.
\<close>

datatype ('b, 's) np_effect =
    Spawn string "string list" nat
  | BufferedCall 'b "string list" int
  | StreamingCall 's "string option" "int option"

record ('b, 's) NPConfig =
  bufferedCallback :: "'b option"
  streamingCallback :: "'s option"
  bufferedData :: "string list"
  activeDevice :: "string option"
  commandQueue :: "(string list \<times> 'b) list"

definition npconfigPath :: string where
  "npconfigPath = ''~/bin/npconfig''"

definition appImagePath :: string where
  "appImagePath = ''~/Naim/Builds/Update/ARM-NP800_master_0.0.0.29391/Application.srec''"

definition defaultCommandTimeoutMs :: nat where
  "defaultCommandTimeoutMs = 20000"

definition maxCommandQueueLength :: nat where
  "maxCommandQueueLength = 2"

text \<open>The gateway as the class initialisers leave it.\<close>

definition newNPConfig :: "('b, 's) NPConfig" where
  "newNPConfig = \<lparr> bufferedCallback = None, streamingCallback = None, bufferedData = [],
     activeDevice = None, commandQueue = [] \<rparr>"

definition setDefaultDevice :: "string \<Rightarrow> ('b, 's) NPConfig \<Rightarrow> ('b, 's) NPConfig" where
  "setDefaultDevice device np =
     (if activeDevice np = None then np\<lparr>activeDevice := Some device\<rparr> else np)"

definition selectDevice :: "string \<Rightarrow> ('b, 's) NPConfig \<Rightarrow> ('b, 's) NPConfig" where
  "selectDevice device np = np\<lparr>activeDevice := Some device\<rparr>"

definition run ::
  "string list \<Rightarrow> nat \<Rightarrow> ('b, 's) NPConfig \<Rightarrow> bool \<times> ('b, 's) NPConfig \<times> ('b, 's) np_effect list"
where
  "run args commandTimeout np = (True, np, [Spawn npconfigPath args commandTimeout])"

definition runBuffered ::
  "string list \<Rightarrow> 'b \<Rightarrow> nat \<Rightarrow> ('b, 's) NPConfig
     \<Rightarrow> bool \<times> ('b, 's) NPConfig \<times> ('b, 's) np_effect list"
where
  "runBuffered args callback commandTimeout np =
     (if bufferedCallback np = None \<and> streamingCallback np = None then
        run args commandTimeout
          (np\<lparr>bufferedCallback := Some callback,
              bufferedData := splice_js 0 (int (length (bufferedData np))) [] (bufferedData np)\<rparr>)
      else if length (commandQueue np) < maxCommandQueueLength then
        (True, np\<lparr>commandQueue := commandQueue np @ [(args, callback)]\<rparr>, [])
      else (False, np, []))"

definition runStreaming ::
  "string list \<Rightarrow> 's \<Rightarrow> nat \<Rightarrow> ('b, 's) NPConfig
     \<Rightarrow> bool \<times> ('b, 's) NPConfig \<times> ('b, 's) np_effect list"
where
  "runStreaming args callback commandTimeout np =
     (if bufferedCallback np = None \<and> streamingCallback np = None then
        run args commandTimeout (np\<lparr>streamingCallback := Some callback\<rparr>)
      else (False, np, []))"

definition version ::
  "'b \<Rightarrow> ('b, 's) NPConfig \<Rightarrow> bool \<times> ('b, 's) NPConfig \<times> ('b, 's) np_effect list"
where
  "version callback np = runBuffered [''-v''] callback defaultCommandTimeoutMs np"

definition keys ::
  "'s \<Rightarrow> ('b, 's) NPConfig \<Rightarrow> bool \<times> ('b, 's) NPConfig \<times> ('b, 's) np_effect list"
where
  "keys callback np = runStreaming [''-l''] callback defaultCommandTimeoutMs np"

definition devices ::
  "'b \<Rightarrow> ('b, 's) NPConfig \<Rightarrow> bool \<times> ('b, 's) NPConfig \<times> ('b, 's) np_effect list"
where
  "devices callback np = runBuffered [''-x''] callback defaultCommandTimeoutMs np"

definition discover ::
  "'b \<Rightarrow> ('b, 's) NPConfig \<Rightarrow> bool \<times> ('b, 's) NPConfig \<times> ('b, 's) np_effect list"
where
  "discover callback np =
     (case activeDevice np of
        Some device \<Rightarrow> runBuffered [''-r '', device] callback defaultCommandTimeoutMs np
      | None \<Rightarrow> (False, np, [BufferedCall callback [] 1]))"

definition reprogApp ::
  "'s \<Rightarrow> ('b, 's) NPConfig \<Rightarrow> bool \<times> ('b, 's) NPConfig \<times> ('b, 's) np_effect list"
where
  "reprogApp callback np =
     (case activeDevice np of
        Some device \<Rightarrow> runStreaming [''-p '', appImagePath, device] callback (5 * 60 * 3600) np
      | None \<Rightarrow> (False, np, [StreamingCall callback None (Some 1)]))"

text \<open>
  \<open>onStdout\<close>: a chunk written to stdout by the spawned process. In buffered mode the
  fragments of the chunk go into the accumulated buffer through
  \<open>bufferedData.splice(-1, 0, ...fragments)\<close>.
\<close>

definition onStdout ::
  "string \<Rightarrow> ('b, 's) NPConfig \<Rightarrow> ('b, 's) NPConfig \<times> ('b, 's) np_effect list"
where
  "onStdout data np =
     (case streamingCallback np of
        Some cb \<Rightarrow> (np, [StreamingCall cb (Some (trim data)) None])
      | None \<Rightarrow>
         (case bufferedCallback np of
            Some cb \<Rightarrow>
              (np\<lparr>bufferedData := splice_js (- 1) 0 (split LF (trim data)) (bufferedData np)\<rparr>, [])
          | None \<Rightarrow> (np, [])))"

text \<open>
  \<open>onClose\<close>: the spawned process has ended; \<open>code\<close> is \<open>None\<close> for a null exit code.
\<close>

definition onClose ::
  "int option \<Rightarrow> ('b, 's) NPConfig \<Rightarrow> ('b, 's) NPConfig \<times> ('b, 's) np_effect list"
where
  "onClose code np =
     (let result = (case code of None \<Rightarrow> 1 | Some c \<Rightarrow> c);
          (np1, called) =
            (case streamingCallback np of
               Some cb \<Rightarrow> (np\<lparr>streamingCallback := None\<rparr>, [StreamingCall cb (Some []) (Some result)])
             | None \<Rightarrow>
                (case bufferedCallback np of
                   Some cb \<Rightarrow> (np\<lparr>bufferedCallback := None\<rparr>, [BufferedCall cb (bufferedData np) result])
                 | None \<Rightarrow> (np, [])))
      in case commandQueue np1 of
           [] \<Rightarrow> (np1, called)
         | command # rest \<Rightarrow>
             (case runBuffered (fst command) (snd command) defaultCommandTimeoutMs
                     (np1\<lparr>commandQueue := rest\<rparr>) of
                (accepted, np2, started) \<Rightarrow> (np2, called @ started)))"

text \<open>
  Successive process terminations, one exit code each, with no output in between: the
  effects of all of them, in order.
\<close>

fun closeAll ::
  "int option list \<Rightarrow> ('b, 's) NPConfig \<Rightarrow> ('b, 's) NPConfig \<times> ('b, 's) np_effect list"
where
  "closeAll [] np = (np, [])"
| "closeAll (code # codes) np =
     (case onClose code np of
        (np1, effs1) \<Rightarrow> (case closeAll codes np1 of (np2, effs2) \<Rightarrow> (np2, effs1 @ effs2)))"

section \<open>Product details (Product.ts)\<close>

text \<open>
  An exception that a function lets escape is a value of type \<open>error\<close>: the TypeError
  of a property read on undefined, and the error that \<open>fs.writeFileSync\<close> throws. A
  function that can throw returns \<open>error + 'a\<close>, with \<open>Inl\<close> for the exception.
\<close>

datatype error = TypeError | FsError

text \<open>
  A \<open>ProductDetails\<close> object: a property is unset where the map is \<open>None\<close>.
\<close>

type_synonym ProductDetails = "string \<rightharpoonup> string"

text \<open>
  \<open>productPropertyLookup[key]\<close>: \<open>None\<close> stands for \<open>undefined\<close>. The table is an
  object literal, so besides its fourteen own labels the lookup finds what the object
  inherits from \<open>Object.prototype\<close>; such a value, used as a property name by the
  caller, is converted to the string given here.
\<close>

definition productPropertyLookup :: "string \<Rightarrow> string option" where
  "productPropertyLookup key =
     (if key = ''Product Type'' then Some ''modelName''
      else if key = ''Product Variant'' then Some ''modelVariant''
      else if key = ''Serial Number'' then Some ''serialNumber''
      else if key = ''Analogue board version'' then Some ''analogBoardVersion''
      else if key = ''Digital board version'' then Some ''digitalBoardVersion''
      else if key = ''Front board version'' then Some ''frontBoardVersion''
      else if key = ''UI board version'' then Some ''uiBoardVersion''
      else if key = ''Mains Voltage'' then Some ''mainsVoltage''
      else if key = ''Display Type'' then Some ''displayType''
      else if key = ''Wifi Region'' then Some ''wifiRegion''
      else if key = ''Google Token'' then Some ''googleToken''
      else if key = ''Date of Birth'' then Some ''dateOfBirth''
      else if key = ''Date of Last Service'' then Some ''dateOfLastService''
      else if key = ''Number Of Services'' then Some ''numberOfServices''
      else if key = ''__proto__'' then Some ''[object Object]''
      else if key \<in> set [''constructor'', ''hasOwnProperty'', ''isPrototypeOf'',
          ''propertyIsEnumerable'', ''toLocaleString'', ''toString'', ''valueOf'',
          ''__defineGetter__'', ''__defineSetter__'', ''__lookupGetter__'',
          ''__lookupSetter__'']
      then Some (''function '' @ (if key = ''constructor'' then ''Object'' else key)
                   @ ''() { [native code] }'')
      else None)"

text \<open>
  The body of the \<open>forEach\<close> callback: \<open>const [key, value] = line.split(':')\<close> leaves
  \<open>value\<close> undefined when the line has no colon, and \<open>value.trim()\<close> then throws a
  TypeError.
\<close>

definition productLine :: "string \<Rightarrow> ProductDetails \<Rightarrow> error + ProductDetails" where
  "productLine line product =
     (case split (CHR '':'') line of
        [] \<Rightarrow> Inl TypeError
      | key # rest \<Rightarrow>
          (case productPropertyLookup (trim key) of
             None \<Rightarrow> Inr product
           | Some property \<Rightarrow>
               (case rest of
                  [] \<Rightarrow> Inl TypeError
                | value # _ \<Rightarrow> Inr (product(property \<mapsto> trim value)))))"

fun forEachLine :: "string list \<Rightarrow> ProductDetails \<Rightarrow> error + ProductDetails" where
  "forEachLine [] product = Inr product"
| "forEachLine (line # rest) product =
     (case productLine line product of
        Inl e \<Rightarrow> Inl e
      | Inr product' \<Rightarrow> forEachLine rest product')"

definition npconfigToProductDetails :: "string list \<Rightarrow> error + ProductDetails" where
  "npconfigToProductDetails data = forEachLine data Map.empty"

section \<open>Debug Session Manager (ARMMfg.ts)\<close>

text \<open>
  The client's callback is an opaque token \<open>'c\<close>. The effects of an operation are what
  it does to the serial port and, for \<open>onData\<close>, the call of the client's callback
  (\<open>runCommand\<close> calls nothing back). The port object
  that \<open>new SerialPort\<close> returns is kept as its settings; the port opens, and reports
  open and write errors, after \<open>runCommand\<close> has returned, so the local \<open>result\<close> of
  \<open>runCommand\<close> is still true when it is tested and returned.
\<close>

record SerialPort =
  path :: string
  baudRate :: nat

datatype port_io =
    PortOpen string nat
  | PortWrite string
  | PortClose

datatype 'c arm_effect =
    SerialIO port_io
  | DataCall 'c "string list"

record 'c ARMMfg =
  device :: "string option"
  port :: "SerialPort option"
  dataCallback :: "'c option"
  responseData :: string

definition debugPortBaudRate :: nat where
  "debugPortBaudRate = 115000"

definition newARMMfg :: "'c ARMMfg" where
  "newARMMfg = \<lparr> device = None, port = None, dataCallback = None, responseData = [] \<rparr>"

definition onData :: "string \<Rightarrow> 'c ARMMfg \<Rightarrow> 'c ARMMfg \<times> 'c arm_effect list" where
  "onData data arm =
     (let value = trim data;
          arm1 = arm\<lparr>responseData := responseData arm @ value\<rparr>;
          lines = split LF (responseData arm1)
      in if length lines > 0 \<and> last lines = ''-'' then
           (arm1\<lparr>port := None, dataCallback := None\<rparr>,
            (case dataCallback arm1 of Some cb \<Rightarrow> [DataCall cb lines] | None \<Rightarrow> []) @
            (case port arm1 of Some p \<Rightarrow> [SerialIO PortClose] | None \<Rightarrow> []))
         else (arm1, []))"

definition setDevice :: "string \<Rightarrow> 'c ARMMfg \<Rightarrow> 'c ARMMfg" where
  "setDevice dev arm = arm\<lparr>device := Some dev\<rparr>"

definition runCommand ::
  "string \<Rightarrow> 'c option \<Rightarrow> 'c ARMMfg \<Rightarrow> bool \<times> 'c ARMMfg \<times> port_io list"
where
  "runCommand command callback arm =
     (if port arm \<noteq> None then (False, arm, [])
      else (case device arm of
              None \<Rightarrow> (False, arm, [])
            | Some dev \<Rightarrow>
                (True,
                 arm\<lparr>port := Some \<lparr>path = dev, baudRate = debugPortBaudRate\<rparr>,
                     responseData := [], dataCallback := callback\<rparr>,
                 [PortOpen dev debugPortBaudRate, PortWrite (''mfg '' @ command @ [LF])])))"

section \<open>Repository Sync Client (UpdateRepository.ts)\<close>

text \<open>
  A batch object is shared by reference among the downloads of a batch: the client keeps
  the batch objects in \<open>batches\<close> and a download names its batch by position. The
  requests sent to the object store are kept with what their callbacks have captured,
  \<open>listings\<close> for \<open>listObjectsV2\<close> and \<open>downloads\<close> for \<open>getObject\<close>; the store answers a
  request later, through \<open>listObjectsDone\<close> and \<open>getObjectDone\<close>, which name the request by
  position and carry the answer. Nothing in the code stops a callback that runs again
  for the same request: it does its work again. The answer to \<open>getObject\<close> comes with
  what the file system does to the write of the body, \<open>WriteThrows\<close> when
  \<open>fs.writeFileSync\<close> throws (the path names a directory, as \<open>./\<close> does, or cannot be
  written).
\<close>

record DownloadBatch =
  completed :: nat
  batch_count :: nat
  success :: nat

datatype s3_io =
    ListObjectsV2 string string
  | GetObject string string
  | WriteFileSync string string

datatype ('l, 'd) repo_effect =
    S3IO s3_io
  | ListCall 'l "string list option"
  | DownloadCall 'd string bool DownloadBatch

datatype s3_list = ListError | ListNoData | ListData "string option list option" bool

datatype s3_get = GetError | GetNoData | GetNoBody | GetBody string

datatype fs_write = WriteReturns | WriteThrows

record 'l ListRequest =
  listCallback :: 'l
  listExtension :: string
  listPrefix :: string

record 'd DownloadRequest =
  objectKey :: string
  filePath :: string
  callback :: 'd
  batch :: nat

record ('l, 'd) UpdateRepository =
  batches :: "DownloadBatch list"
  listings :: "'l ListRequest list"
  downloads :: "'d DownloadRequest list"

definition bucketName :: string where
  "bucketName = ''com.naimaudio.firmware''"

definition packageIndexExtension :: string where
  "packageIndexExtension = ''xml''"

definition newUpdateRepository :: "('l, 'd) UpdateRepository" where
  "newUpdateRepository = \<lparr> batches = [], listings = [], downloads = [] \<rparr>"

definition endsWith :: "string \<Rightarrow> string \<Rightarrow> bool" where
  "endsWith s suffix \<longleftrightarrow>
     length suffix \<le> length s \<and> drop (length s - length suffix) s = suffix"

definition doGetFileList ::
  "'l \<Rightarrow> string \<Rightarrow> string \<Rightarrow> ('l, 'd) UpdateRepository
     \<Rightarrow> ('l, 'd) UpdateRepository \<times> s3_io list"
where
  "doGetFileList cb ext pre repo =
     (repo\<lparr>listings := listings repo @
         [\<lparr>listCallback = cb, listExtension = ext, listPrefix = pre\<rparr>]\<rparr>,
      [ListObjectsV2 bucketName pre])"

definition listObjectsDone ::
  "nat \<Rightarrow> s3_list \<Rightarrow> ('l, 'd) UpdateRepository
     \<Rightarrow> ('l, 'd) UpdateRepository \<times> ('l, 'd) repo_effect list"
where
  "listObjectsDone i listResult repo =
     (if i < length (listings repo) then
        (let rq = listings repo ! i
         in case listResult of
              ListError \<Rightarrow> (repo, [ListCall (listCallback rq) None])
            | ListNoData \<Rightarrow> (repo, [])
            | ListData contents isTruncated \<Rightarrow>
                (repo,
                 [ListCall (listCallback rq)
                    (Some (case contents of
                             None \<Rightarrow> []
                           | Some objs \<Rightarrow>
                               List.map_filter
                                 (\<lambda>obj. case obj of
                                     None \<Rightarrow> None
                                   | Some k \<Rightarrow> if endsWith k (listExtension rq) then Some k else None)
                                 objs))]))
      else (repo, []))"

definition doDownloadFile ::
  "string \<Rightarrow> string \<Rightarrow> 'd \<Rightarrow> nat \<Rightarrow> ('l, 'd) UpdateRepository
     \<Rightarrow> ('l, 'd) UpdateRepository \<times> s3_io list"
where
  "doDownloadFile key fp cb b repo =
     (repo\<lparr>downloads := downloads repo @
         [\<lparr>objectKey = key, filePath = fp, callback = cb, batch = b\<rparr>]\<rparr>,
      [GetObject bucketName key])"

text \<open>
  The callback of \<open>getObject\<close> in \<open>doDownloadFile\<close>: on a body it writes the file, and
  an exception of the write leaves it before the batch is counted and before the
  client's callback is called; the exception is the third component of the result.
\<close>

definition getObjectDone ::
  "nat \<Rightarrow> s3_get \<Rightarrow> fs_write \<Rightarrow> ('l, 'd) UpdateRepository
     \<Rightarrow> ('l, 'd) UpdateRepository \<times> ('l, 'd) repo_effect list \<times> error option"
where
  "getObjectDone i objectResult written repo =
     (if i < length (downloads repo) \<and> batch (downloads repo ! i) < length (batches repo) then
        (let rq = downloads repo ! i;
             res = (case objectResult of GetBody body \<Rightarrow> True | _ \<Rightarrow> False);
             writes = (case objectResult of
                         GetBody body \<Rightarrow> [S3IO (WriteFileSync (filePath rq) body)]
                       | _ \<Rightarrow> [])
         in if res \<and> written = WriteThrows then (repo, writes, Some FsError)
            else
              (let b = batches repo ! batch rq;
                   b1 = b\<lparr>completed := completed b + 1,
                          success := success b + (if res then 1 else 0)\<rparr>
               in (repo\<lparr>batches := (batches repo)[batch rq := b1]\<rparr>,
                   writes @ [DownloadCall (callback rq) (filePath rq) res b1],
                   None)))
      else (repo, [], None))"

definition getPackageIndexFiles ::
  "'l \<Rightarrow> string \<Rightarrow> ('l, 'd) UpdateRepository \<Rightarrow> ('l, 'd) UpdateRepository \<times> s3_io list"
where
  "getPackageIndexFiles cb pre repo = doGetFileList cb packageIndexExtension pre repo"

definition downloadFile ::
  "string \<Rightarrow> string \<Rightarrow> 'd \<Rightarrow> ('l, 'd) UpdateRepository
     \<Rightarrow> ('l, 'd) UpdateRepository \<times> s3_io list"
where
  "downloadFile key fp cb repo =
     doDownloadFile key fp cb (length (batches repo))
       (repo\<lparr>batches := batches repo @ [\<lparr>completed = 0, batch_count = 1, success = 0\<rparr>]\<rparr>)"

fun downloadEach ::
  "string list \<Rightarrow> string \<Rightarrow> 'd \<Rightarrow> nat \<Rightarrow> ('l, 'd) UpdateRepository
     \<Rightarrow> ('l, 'd) UpdateRepository \<times> s3_io list"
where
  "downloadEach [] fp cb b repo = (repo, [])"
| "downloadEach (element # rest) fp cb b repo =
     (let fragments = split (CHR ''/'') element in
      case (if length fragments > 0
            then doDownloadFile element (fp @ ''/'' @ last fragments) cb b repo
            else (repo, [])) of
        (repo1, io1) \<Rightarrow>
          (case downloadEach rest fp cb b repo1 of (repo2, io2) \<Rightarrow> (repo2, io1 @ io2)))"

definition downloadFiles ::
  "string list \<Rightarrow> string \<Rightarrow> 'd \<Rightarrow> ('l, 'd) UpdateRepository
     \<Rightarrow> ('l, 'd) UpdateRepository \<times> s3_io list"
where
  "downloadFiles objectKeys fp cb repo =
     downloadEach objectKeys fp cb (length (batches repo))
       (repo\<lparr>batches := batches repo @
          [\<lparr>completed = 0, batch_count = length objectKeys, success = 0\<rparr>]\<rparr>)"

section \<open>Update Orchestrator (UpdaterStateMachine.ts)\<close>

text \<open>
  The workflow states and the events are the string enums of IPC.ts and of
  UpdaterStateMachine.ts; \<open>AllEvents\<close> is the union of \<open>Lifecycle\<close>, \<open>Controls\<close> and
  \<open>IPC.Commands\<close>, whose values are pairwise different strings.
\<close>

datatype States =
    Welcome | CheckingForUpdate | CheckFailedOffline | CheckFailedCached | ConnectPrompt
  | Detecting | DetectionFailed | DetectingManual | DetectedCurrent | DetectedAvailable
  | Updating | UpdateComplete | UpdateFailed

datatype AllEvents =
    Enter | Exit | Timeout
  | UpdateCheckSuccess | UpdateCheckFailure | DiscoverySuccess | DiscoveryFailure
  | ReprogrammingSuccess | ReprogrammingFailure
  | Continue | Retry | Restart | Select | Install | Connect

datatype Configs =
  AvailableDevices | SelectedDevice | ProductDetails | FirmwareVersions | ReprogProgress

text \<open>
  The callbacks that the orchestrator hands to its adapters are its own bound methods;
  each is a token here, and the orchestrator runs the method when an adapter reports the
  call.
\<close>

datatype BufferedCb = OnVersion | OnDevices | OnDiscovery
datatype StreamingCb = OnReprogramming
datatype SerialCb = OnCommandResponse
datatype ListCb = OnRepositoryList
datatype DownloadCb = OnRepositoryDownload

text \<open>
  What the orchestrator does to the outside is appended to \<open>trace\<close>, in order: the
  line that \<open>injectEvent\<close> logs for every event injected (with the state it is injected
  in), the line that \<open>onRepositoryDownload\<close> logs for every download callback (file,
  \<open>batch.completed\<close>, \<open>batch.count\<close>, result), the messages sent through the IPC
  module, the calls of the \<open>onStateChange\<close> hook, the timers armed, and the input and
  output of the adapters. The number sent with a progress report is
  \<open>Math.round((parseInt(value, 10) * 100) / 30000)\<close>, computed in doubles; it is kept as
  \<open>PercentOf value\<close>, the text it is computed from.
\<close>

datatype ConfigValue =
    DeviceList "string list"
  | Details ProductDetails
  | PercentOf string

datatype fsm_output =
    LogInject "States option" AllEvents
  | LogDownload string nat nat bool
  | SendStateChange States
  | SendConfig Configs ConfigValue
  | StateChangeHook nat States
  | SetTimeout nat
  | NpSpawn string "string list" nat
  | Serial port_io
  | S3 s3_io

text \<open>
  The orchestrator owns one gateway, one debug session manager and one repository
  client. \<open>onStateChange\<close> is \<open>None\<close> for null, or names the hook installed. The
  firmware versions, which only the response of the debug session sets, are left out.
\<close>

record fsm =
  currentState :: "States option"
  npconfig :: "(BufferedCb, StreamingCb) NPConfig"
  armMfg :: "SerialCb ARMMfg"
  updateRepo :: "(ListCb, DownloadCb) UpdateRepository"
  productDetails :: "ProductDetails option"
  onStateChange :: "nat option"
  trace :: "fsm_output list"

definition cacheLocation :: string where
  "cacheLocation = ''.''"

definition newFsm :: fsm where
  "newFsm = \<lparr> currentState = None, npconfig = newNPConfig, armMfg = newARMMfg,
     updateRepo = newUpdateRepository, productDetails = None, onStateChange = None,
     trace = [] \<rparr>"

definition emit :: "fsm_output list \<Rightarrow> fsm \<Rightarrow> fsm" where
  "emit out \<sigma> = \<sigma>\<lparr>trace := trace \<sigma> @ out\<rparr>"

definition startTimer :: "nat \<Rightarrow> fsm \<Rightarrow> fsm" where
  "startTimer timeoutMs \<sigma> = emit [SetTimeout timeoutMs] \<sigma>"

definition onVersion :: "string list \<Rightarrow> int \<Rightarrow> fsm \<Rightarrow> fsm" where
  "onVersion ver status \<sigma> = \<sigma>"

definition onDevices :: "string list \<Rightarrow> int \<Rightarrow> fsm \<Rightarrow> fsm" where
  "onDevices devs status \<sigma> =
     (if status = 0 then
        emit [SendConfig AvailableDevices (DeviceList devs)]
          (case devs of
             [] \<Rightarrow> \<sigma>
           | d # _ \<Rightarrow> \<sigma>\<lparr>npconfig := setDefaultDevice d (npconfig \<sigma>),
                          armMfg := setDevice d (armMfg \<sigma>)\<rparr>)
      else \<sigma>)"

text \<open>
  The progress report of the reprogramming stream: \<open>lastIndexOf\<close> is \<open>None\<close> for -1.
\<close>

definition progressTag :: string where
  "progressTag = ''-> Lines:''"

definition lastIndexOf :: "string \<Rightarrow> string \<Rightarrow> nat option" where
  "lastIndexOf s t =
     (case filter (\<lambda>i. take (length t) (drop i s) = t) (rev [0 ..< Suc (length s)]) of
        [] \<Rightarrow> None
      | i # _ \<Rightarrow> Some i)"

text \<open>
  The weights that order the calls of the mutually recursive functions below: the
  handlers of \<open>Detecting\<close>, \<open>DetectingManual\<close> and \<open>Updating\<close> call the gateway on Enter,
  which may call back at once; a control event leads to a state whose Enter does not;
  only a command leads to a state whose Enter does.
\<close>

definition adapterOnEnter :: "States \<Rightarrow> bool" where
  "adapterOnEnter state \<longleftrightarrow> state \<in> set [Detecting, DetectingManual, Updating]"

definition handlerWeight :: "States \<Rightarrow> AllEvents \<Rightarrow> nat" where
  "handlerWeight state event =
     (case event of
        Enter \<Rightarrow> if adapterOnEnter state then 8 else 0
      | Exit \<Rightarrow> 0
      | Timeout \<Rightarrow> 0
      | UpdateCheckSuccess \<Rightarrow> 3
      | UpdateCheckFailure \<Rightarrow> 3
      | DiscoverySuccess \<Rightarrow> 3
      | DiscoveryFailure \<Rightarrow> 3
      | ReprogrammingSuccess \<Rightarrow> 3
      | ReprogrammingFailure \<Rightarrow> 3
      | _ \<Rightarrow> 11)"

definition callLevel ::
  "((States \<times> fsm + AllEvents \<times> fsm) +
    (States \<times> AllEvents \<times> fsm + (BufferedCb, StreamingCb) np_effect list \<times> fsm)) +
   ((BufferedCb \<times> string list \<times> int \<times> fsm + StreamingCb \<times> string option \<times> int option \<times> fsm) +
    (string list \<times> int \<times> fsm + string option \<times> int option \<times> fsm)) \<Rightarrow> nat"
where
  "callLevel =
     case_sum
       (case_sum
          (case_sum (\<lambda>(newState, \<sigma>). if adapterOnEnter newState then 10 else 2)
                    (\<lambda>(event, \<sigma>). case currentState \<sigma> of
                                      None \<Rightarrow> 0
                                    | Some state \<Rightarrow> Suc (handlerWeight state event)))
          (case_sum (\<lambda>(state, event, \<sigma>). handlerWeight state event)
                    (\<lambda>(effs, \<sigma>). 7)))
       (case_sum
          (case_sum (\<lambda>call. 6) (\<lambda>call. 6))
          (case_sum (\<lambda>call. 5) (\<lambda>call. 5)))"

definition callLength ::
  "((States \<times> fsm + AllEvents \<times> fsm) +
    (States \<times> AllEvents \<times> fsm + (BufferedCb, StreamingCb) np_effect list \<times> fsm)) +
   ((BufferedCb \<times> string list \<times> int \<times> fsm + StreamingCb \<times> string option \<times> int option \<times> fsm) +
    (string list \<times> int \<times> fsm + string option \<times> int option \<times> fsm)) \<Rightarrow> nat"
where
  "callLength =
     case_sum
       (case_sum (case_sum (\<lambda>call. 0) (\<lambda>call. 0))
                 (case_sum (\<lambda>call. 0) (\<lambda>(effs, \<sigma>). length effs)))
       (\<lambda>call. 0)"

text \<open>
  The condition of \<open>if (true)\<close> in \<open>stateChecking\<close>: the code assumes that files of an
  earlier download are there.
\<close>

definition haveCachedFiles :: bool where
  "haveCachedFiles = True"

text \<open>
  \<open>enterState\<close>, \<open>injectEvent\<close>, the state handlers (\<open>stateTable state\<close> is the handler
  that the table holds for \<open>state\<close>: \<open>stateWelcome\<close>, \<open>stateChecking\<close>, ...) and the
  gateway callbacks \<open>onDiscovery\<close> and \<open>onReprogramming\<close> call each other.
  \<open>npconfigEffects\<close> takes the effects that a gateway operation returns: a spawn goes
  to the trace, a callback is run. A result \<open>Inl\<close> is an exception that escapes to
  the event loop.
\<close>

function enterState :: "States \<Rightarrow> fsm \<Rightarrow> error + fsm"
  and injectEvent :: "AllEvents \<Rightarrow> fsm \<Rightarrow> error + fsm"
  and stateTable :: "States \<Rightarrow> AllEvents \<Rightarrow> fsm \<Rightarrow> error + fsm"
  and npconfigEffects :: "(BufferedCb, StreamingCb) np_effect list \<Rightarrow> fsm \<Rightarrow> error + fsm"
  and bufferedCall :: "BufferedCb \<Rightarrow> string list \<Rightarrow> int \<Rightarrow> fsm \<Rightarrow> error + fsm"
  and streamingCall :: "StreamingCb \<Rightarrow> string option \<Rightarrow> int option \<Rightarrow> fsm \<Rightarrow> error + fsm"
  and onDiscovery :: "string list \<Rightarrow> int \<Rightarrow> fsm \<Rightarrow> error + fsm"
  and onReprogramming :: "string option \<Rightarrow> int option \<Rightarrow> fsm \<Rightarrow> error + fsm"
where
  "enterState newState \<sigma> =
     (if currentState \<sigma> \<noteq> Some newState then
        (let \<sigma>1 = emit [SendStateChange newState] \<sigma> in
         case (if currentState \<sigma>1 \<noteq> None then injectEvent Exit \<sigma>1 else Inr \<sigma>1) of
           Inl e \<Rightarrow> Inl e
         | Inr \<sigma>2 \<Rightarrow>
             (case injectEvent Enter (\<sigma>2\<lparr>currentState := Some newState\<rparr>) of
                Inl e \<Rightarrow> Inl e
              | Inr \<sigma>3 \<Rightarrow>
                  (case onStateChange \<sigma>3 of
                     None \<Rightarrow> Inr \<sigma>3
                   | Some hook \<Rightarrow> Inr (emit [StateChangeHook hook newState] \<sigma>3))))
      else Inr \<sigma>)"
| "injectEvent event \<sigma> =
     (let \<sigma>1 = emit [LogInject (currentState \<sigma>) event] \<sigma> in
      case currentState \<sigma>1 of
        None \<Rightarrow> Inr \<sigma>1
      | Some state \<Rightarrow> stateTable state event \<sigma>1)"
| \<comment> \<open>stateWelcome\<close>
  "stateTable Welcome event \<sigma> =
     (case event of
        Enter \<Rightarrow> Inr \<sigma>
      | Exit \<Rightarrow> Inr \<sigma>
      | Continue \<Rightarrow> enterState CheckingForUpdate \<sigma>
      | _ \<Rightarrow> Inr \<sigma>)"
| \<comment> \<open>stateChecking\<close>
  "stateTable CheckingForUpdate event \<sigma> =
     (case event of
        Enter \<Rightarrow>
          (case getPackageIndexFiles OnRepositoryList ''NonStreamers'' (updateRepo \<sigma>) of
             (repo, io) \<Rightarrow> Inr (emit (map S3 io) (\<sigma>\<lparr>updateRepo := repo\<rparr>)))
      | Exit \<Rightarrow> Inr \<sigma>
      | Timeout \<Rightarrow> Inr \<sigma>
      | UpdateCheckSuccess \<Rightarrow> enterState ConnectPrompt \<sigma>
      | UpdateCheckFailure \<Rightarrow>
          (if haveCachedFiles then enterState CheckFailedCached \<sigma>
           else enterState CheckFailedOffline \<sigma>)
      | _ \<Rightarrow> Inr \<sigma>)"
| \<comment> \<open>stateCheckingOffline\<close>
  "stateTable CheckFailedOffline event \<sigma> =
     (case event of
        Enter \<Rightarrow> Inr \<sigma>
      | Exit \<Rightarrow> Inr \<sigma>
      | Retry \<Rightarrow> enterState CheckingForUpdate \<sigma>
      | _ \<Rightarrow> Inr \<sigma>)"
| \<comment> \<open>stateCheckingCached\<close>
  "stateTable CheckFailedCached event \<sigma> =
     (case event of
        Enter \<Rightarrow> Inr \<sigma>
      | Exit \<Rightarrow> Inr \<sigma>
      | Retry \<Rightarrow> enterState CheckingForUpdate \<sigma>
      | Continue \<Rightarrow> enterState ConnectPrompt \<sigma>
      | _ \<Rightarrow> Inr \<sigma>)"
| \<comment> \<open>stateConnecting\<close>
  "stateTable ConnectPrompt event \<sigma> =
     (case event of
        Enter \<Rightarrow> Inr \<sigma>
      | Exit \<Rightarrow> Inr \<sigma>
      | Retry \<Rightarrow> enterState CheckingForUpdate \<sigma>
      | Continue \<Rightarrow> enterState Detecting \<sigma>
      | _ \<Rightarrow> Inr \<sigma>)"
| \<comment> \<open>stateDetecting\<close>
  "stateTable Detecting event \<sigma> =
     (case event of
        Enter \<Rightarrow>
          (case discover OnDiscovery (npconfig \<sigma>) of
             (accepted, np, effs) \<Rightarrow> npconfigEffects effs (\<sigma>\<lparr>npconfig := np\<rparr>))
      | Exit \<Rightarrow> Inr \<sigma>
      | Timeout \<Rightarrow> Inr \<sigma>
      | DiscoverySuccess \<Rightarrow> enterState DetectedAvailable \<sigma>
      | DiscoveryFailure \<Rightarrow> enterState DetectionFailed \<sigma>
      | _ \<Rightarrow> Inr \<sigma>)"
| \<comment> \<open>stateDetectionFailed\<close>
  "stateTable DetectionFailed event \<sigma> =
     (case event of
        Enter \<Rightarrow> Inr \<sigma>
      | Exit \<Rightarrow> Inr \<sigma>
      | Retry \<Rightarrow> enterState Detecting \<sigma>
      | Continue \<Rightarrow> enterState DetectingManual \<sigma>
      | _ \<Rightarrow> Inr \<sigma>)"
| \<comment> \<open>stateDetectionManual\<close>
  "stateTable DetectingManual event \<sigma> =
     (case event of
        Enter \<Rightarrow>
          (case devices OnDevices (npconfig \<sigma>) of
             (accepted, np, effs) \<Rightarrow> npconfigEffects effs (\<sigma>\<lparr>npconfig := np\<rparr>))
      | Exit \<Rightarrow> Inr \<sigma>
      | Connect \<Rightarrow> enterState Detecting \<sigma>
      | _ \<Rightarrow> Inr \<sigma>)"
| \<comment> \<open>stateDetectionAvailable\<close>
  "stateTable DetectedAvailable event \<sigma> =
     (case event of
        Enter \<Rightarrow> Inr (startTimer 500 \<sigma>)
      | Exit \<Rightarrow> Inr \<sigma>
      | Timeout \<Rightarrow>
          (case productDetails \<sigma> of
             None \<Rightarrow> Inr \<sigma>
           | Some details \<Rightarrow>
               (let \<sigma>1 = emit [SendConfig ProductDetails (Details details)] \<sigma> in
                case runCommand ''version host'' (Some OnCommandResponse) (armMfg \<sigma>1) of
                  (accepted, arm, io) \<Rightarrow> Inr (emit (map Serial io) (\<sigma>1\<lparr>armMfg := arm\<rparr>))))
      | Install \<Rightarrow> enterState Updating \<sigma>
      | _ \<Rightarrow> Inr \<sigma>)"
| \<comment> \<open>stateDetectionCurrent\<close>
  "stateTable DetectedCurrent event \<sigma> =
     (case event of
        Enter \<Rightarrow> Inr \<sigma>
      | Exit \<Rightarrow> Inr \<sigma>
      | Restart \<Rightarrow> enterState Welcome \<sigma>
      | _ \<Rightarrow> Inr \<sigma>)"
| \<comment> \<open>stateUpdating\<close>
  "stateTable Updating event \<sigma> =
     (case event of
        Enter \<Rightarrow>
          (case reprogApp OnReprogramming (npconfig \<sigma>) of
             (accepted, np, effs) \<Rightarrow> npconfigEffects effs (\<sigma>\<lparr>npconfig := np\<rparr>))
      | Exit \<Rightarrow> Inr \<sigma>
      | Timeout \<Rightarrow> Inr \<sigma>
      | ReprogrammingSuccess \<Rightarrow> enterState UpdateComplete \<sigma>
      | ReprogrammingFailure \<Rightarrow> enterState UpdateFailed \<sigma>
      | _ \<Rightarrow> Inr \<sigma>)"
| \<comment> \<open>stateUpdateComplete\<close>
  "stateTable UpdateComplete event \<sigma> =
     (case event of
        Enter \<Rightarrow> Inr \<sigma>
      | Exit \<Rightarrow> Inr \<sigma>
      | Restart \<Rightarrow> enterState Welcome \<sigma>
      | _ \<Rightarrow> Inr \<sigma>)"
| \<comment> \<open>stateUpdateFailed\<close>
  "stateTable UpdateFailed event \<sigma> =
     (case event of
        Enter \<Rightarrow> Inr \<sigma>
      | Exit \<Rightarrow> Inr \<sigma>
      | Restart \<Rightarrow> enterState Welcome \<sigma>
      | _ \<Rightarrow> Inr \<sigma>)"
| "npconfigEffects [] \<sigma> = Inr \<sigma>"
| "npconfigEffects (eff # effs) \<sigma> =
     (case (case eff of
              Spawn file args timeoutMs \<Rightarrow> Inr (emit [NpSpawn file args timeoutMs] \<sigma>)
            | BufferedCall cb data status \<Rightarrow> bufferedCall cb data status \<sigma>
            | StreamingCall cb data status \<Rightarrow> streamingCall cb data status \<sigma>) of
        Inl e \<Rightarrow> Inl e
      | Inr \<sigma>1 \<Rightarrow> npconfigEffects effs \<sigma>1)"
| "bufferedCall cb data status \<sigma> =
     (case cb of
        OnVersion \<Rightarrow> Inr (onVersion data status \<sigma>)
      | OnDevices \<Rightarrow> Inr (onDevices data status \<sigma>)
      | OnDiscovery \<Rightarrow> onDiscovery data status \<sigma>)"
| "streamingCall cb data status \<sigma> =
     (case cb of OnReprogramming \<Rightarrow> onReprogramming data status \<sigma>)"
| "onDiscovery details status \<sigma> =
     (if status = 0 then
        (case npconfigToProductDetails details of
           Inl e \<Rightarrow> Inl e
         | Inr product \<Rightarrow> injectEvent DiscoverySuccess (\<sigma>\<lparr>productDetails := Some product\<rparr>))
      else injectEvent DiscoveryFailure \<sigma>)"
| "onReprogramming progress status \<sigma> =
     (let \<sigma>1 =
        (case progress of
           None \<Rightarrow> \<sigma>
         | Some text \<Rightarrow>
             (case lastIndexOf text progressTag of
                None \<Rightarrow> \<sigma>
              | Some linesPos \<Rightarrow>
                  emit [SendConfig ReprogProgress
                          (PercentOf (trim (drop (linesPos + length progressTag) text)))] \<sigma>))
      in case status of
           None \<Rightarrow> Inr \<sigma>1
         | Some st \<Rightarrow>
             injectEvent (if st = 0 then ReprogrammingSuccess else ReprogrammingFailure) \<sigma>1)"
  by pat_completeness auto


termination
  apply (relation "measures [callLevel, callLength]")
  apply (auto simp: callLevel_def callLength_def handlerWeight_def adapterOnEnter_def emit_def
      split: option.splits)
  done

declare enterState.simps [simp del] injectEvent.simps [simp del]

text \<open>
  The callbacks the orchestrator hands to the repository client.
\<close>

definition onRepositoryList :: "string list option \<Rightarrow> fsm \<Rightarrow> error + fsm" where
  "onRepositoryList objectList \<sigma> =
     (case objectList of
        None \<Rightarrow> injectEvent UpdateCheckFailure \<sigma>
      | Some objectKeys \<Rightarrow>
          if length objectKeys = 0 then injectEvent UpdateCheckFailure \<sigma>
          else (case downloadFiles objectKeys cacheLocation OnRepositoryDownload (updateRepo \<sigma>) of
                  (repo, io) \<Rightarrow> Inr (emit (map S3 io) (\<sigma>\<lparr>updateRepo := repo\<rparr>))))"

definition onRepositoryDownload ::
  "string \<Rightarrow> bool \<Rightarrow> DownloadBatch \<Rightarrow> fsm \<Rightarrow> error + fsm"
where
  "onRepositoryDownload fp result b \<sigma> =
     (let \<sigma>1 = emit [LogDownload fp (completed b) (batch_count b) result] \<sigma> in
      if completed b = batch_count b then
        (if success b > 0 then injectEvent UpdateCheckSuccess \<sigma>1
         else injectEvent UpdateCheckFailure \<sigma>1)
      else Inr \<sigma>1)"

fun repoEffects :: "(ListCb, DownloadCb) repo_effect list \<Rightarrow> fsm \<Rightarrow> error + fsm" where
  "repoEffects [] \<sigma> = Inr \<sigma>"
| "repoEffects (eff # effs) \<sigma> =
     (case (case eff of
              S3IO io \<Rightarrow> Inr (emit [S3 io] \<sigma>)
            | ListCall cb objectList \<Rightarrow>
                (case cb of OnRepositoryList \<Rightarrow> onRepositoryList objectList \<sigma>)
            | DownloadCall cb fp result b \<Rightarrow>
                (case cb of OnRepositoryDownload \<Rightarrow> onRepositoryDownload fp result b \<sigma>)) of
        Inl e \<Rightarrow> Inl e
      | Inr \<sigma>1 \<Rightarrow> repoEffects effs \<sigma>1)"

text \<open>
  What reaches the orchestrator from outside: \<open>start\<close>, a command or a setting from the
  observer, the timer, an event of the spawned utility, and the completion of a request
  to the object store.
\<close>

definition start :: "fsm \<Rightarrow> error + fsm" where
  "start \<sigma> =
     (case version OnVersion (npconfig \<sigma>) of
        (accepted1, np1, effs1) \<Rightarrow>
          (case npconfigEffects effs1 (\<sigma>\<lparr>npconfig := np1\<rparr>) of
             Inl e \<Rightarrow> Inl e
           | Inr \<sigma>1 \<Rightarrow>
               (case devices OnDevices (npconfig \<sigma>1) of
                  (accepted2, np2, effs2) \<Rightarrow>
                    (case npconfigEffects effs2 (\<sigma>1\<lparr>npconfig := np2\<rparr>) of
                       Inl e \<Rightarrow> Inl e
                     | Inr \<sigma>2 \<Rightarrow> enterState Welcome \<sigma>2))))"

definition onCommand :: "AllEvents \<Rightarrow> fsm \<Rightarrow> error + fsm" where
  "onCommand message \<sigma> = injectEvent message \<sigma>"

definition onConfig :: "Configs \<Rightarrow> string \<Rightarrow> fsm \<Rightarrow> fsm" where
  "onConfig message v \<sigma> =
     (if message = SelectedDevice then
        \<sigma>\<lparr>npconfig := selectDevice v (npconfig \<sigma>), armMfg := setDevice v (armMfg \<sigma>)\<rparr>
      else \<sigma>)"

definition onTimeout :: "fsm \<Rightarrow> error + fsm" where
  "onTimeout \<sigma> = injectEvent Timeout \<sigma>"

definition processStdout :: "string \<Rightarrow> fsm \<Rightarrow> error + fsm" where
  "processStdout data \<sigma> =
     (case onStdout data (npconfig \<sigma>) of
        (np, effs) \<Rightarrow> npconfigEffects effs (\<sigma>\<lparr>npconfig := np\<rparr>))"

definition processClose :: "int option \<Rightarrow> fsm \<Rightarrow> error + fsm" where
  "processClose code \<sigma> =
     (case onClose code (npconfig \<sigma>) of
        (np, effs) \<Rightarrow> npconfigEffects effs (\<sigma>\<lparr>npconfig := np\<rparr>))"

definition s3ListObjectsDone :: "nat \<Rightarrow> s3_list \<Rightarrow> fsm \<Rightarrow> error + fsm" where
  "s3ListObjectsDone i listResult \<sigma> =
     (case listObjectsDone i listResult (updateRepo \<sigma>) of
        (repo, effs) \<Rightarrow> repoEffects effs (\<sigma>\<lparr>updateRepo := repo\<rparr>))"

definition s3GetObjectDone :: "nat \<Rightarrow> s3_get \<Rightarrow> fs_write \<Rightarrow> fsm \<Rightarrow> error + fsm" where
  "s3GetObjectDone i objectResult written \<sigma> =
     (case getObjectDone i objectResult written (updateRepo \<sigma>) of
        (repo, effs, thrown) \<Rightarrow>
          (case repoEffects effs (\<sigma>\<lparr>updateRepo := repo\<rparr>) of
             Inl e \<Rightarrow> Inl e
           | Inr \<sigma>1 \<Rightarrow> (case thrown of Some e \<Rightarrow> Inl e | None \<Rightarrow> Inr \<sigma>1)))"

text \<open>
  A sequence of download completions, each naming its request, the answer of the store
  and what the file system does to the write.
\<close>

fun s3GetObjectsDone :: "(nat \<times> s3_get \<times> fs_write) list \<Rightarrow> fsm \<Rightarrow> error + fsm" where
  "s3GetObjectsDone [] \<sigma> = Inr \<sigma>"
| "s3GetObjectsDone (c # cs) \<sigma> =
     (case s3GetObjectDone (fst c) (fst (snd c)) (snd (snd c)) \<sigma> of
        Inl e \<Rightarrow> Inl e
      | Inr \<sigma>1 \<Rightarrow> s3GetObjectsDone cs \<sigma>1)"

definition isBody :: "s3_get \<Rightarrow> bool" where
  "isBody objectResult = (case objectResult of GetBody body \<Rightarrow> True | _ \<Rightarrow> False)"

text \<open>
  The entries of the orchestrator's output that tell the story of a download batch:
  the log line of each download callback, and the injection of a check outcome.
\<close>

fun isBatchLog :: "fsm_output \<Rightarrow> bool" where
  "isBatchLog (LogDownload fp c n r) = True"
| "isBatchLog (LogInject st UpdateCheckSuccess) = True"
| "isBatchLog (LogInject st UpdateCheckFailure) = True"
| "isBatchLog out = False"

section \<open>Vocabulary of the proofs\<close>

text \<open>
  The gateway has at most one command in flight when at most one of its callbacks is
  registered.
\<close>

definition singleFlight :: "('b, 's) NPConfig \<Rightarrow> bool" where
  "singleFlight np \<longleftrightarrow> bufferedCallback np = None \<or> streamingCallback np = None"

text \<open>
  The request that \<open>downloadFiles\<close> issues for one object key; the condition that the
  requests named by \<open>ids\<close> exist and belong to batch \<open>b\<close>; the completions at which
  the write, if there is one, returns; and the batch story expected of the completions
  \<open>evs\<close> of a batch that has \<open>c\<close> completions and \<open>s\<close> successes behind it.
\<close>

definition downloadRequest :: "string \<Rightarrow> 'd \<Rightarrow> nat \<Rightarrow> string \<Rightarrow> 'd DownloadRequest" where
  "downloadRequest fp cb b element =
     \<lparr>objectKey = element, filePath = fp @ ''/'' @ last (split (CHR ''/'') element),
      callback = cb, batch = b\<rparr>"

definition batchRequests :: "fsm \<Rightarrow> nat \<Rightarrow> nat list \<Rightarrow> bool" where
  "batchRequests \<sigma> b ids \<longleftrightarrow>
     b < length (batches (updateRepo \<sigma>)) \<and>
     list_all (\<lambda>i. i < length (downloads (updateRepo \<sigma>))
                 \<and> batch (downloads (updateRepo \<sigma>) ! i) = b) ids"

definition writeReturns :: "nat \<times> s3_get \<times> fs_write \<Rightarrow> bool" where
  "writeReturns ev \<longleftrightarrow> \<not> (isBody (fst (snd ev)) \<and> snd (snd ev) = WriteThrows)"

definition batchLog ::
  "fsm \<Rightarrow> nat \<Rightarrow> nat \<Rightarrow> (nat \<times> s3_get \<times> fs_write) list \<Rightarrow> fsm_output list"
where
  "batchLog \<sigma> c s evs =
     map (\<lambda>(ev, k). LogDownload (filePath (downloads (updateRepo \<sigma>) ! fst ev)) k
                       (c + length evs) (isBody (fst (snd ev))))
       (zip evs [Suc c ..< Suc (c + length evs)]) @
     (if evs = [] then []
      else [LogInject (currentState \<sigma>)
              (if 0 < s + length (filter (\<lambda>ev. isBody (fst (snd ev))) evs)
               then UpdateCheckSuccess else UpdateCheckFailure)])"

text \<open>
  The state in which a check outcome leaves the orchestrator: only \<open>CheckingForUpdate\<close>
  reacts to it.
\<close>

definition afterOutcome :: "States option \<Rightarrow> AllEvents \<Rightarrow> States option" where
  "afterOutcome state event =
     (if state = Some CheckingForUpdate
      then Some (if event = UpdateCheckSuccess then ConnectPrompt else CheckFailedCached)
      else state)"

section \<open>Command Gateway: properties\<close>

lemma splice_js_clear: "splice_js 0 (int (length xs)) [] xs = []"
  by (simp add: splice_js_def Let_def)

text \<open>
  At most one command is in flight: no operation of the gateway leaves both callbacks
  registered, if they were not both registered before.
\<close>

lemma singleFlight_preserved:
  assumes "singleFlight np"
  shows "singleFlight (fst (snd (runBuffered args b t np)))"
    and "singleFlight (fst (snd (runStreaming args s t np)))"
    and "singleFlight (fst (onStdout data np))"
    and "singleFlight (fst (onClose code np))"
    and "singleFlight (setDefaultDevice d np)"
    and "singleFlight (selectDevice d np)"
  using assms
  by (auto simp: singleFlight_def runBuffered_def runStreaming_def run_def onStdout_def
      onClose_def setDefaultDevice_def selectDevice_def Let_def
      split: option.splits list.splits prod.splits if_splits)

lemma onClose_buffered_next:
  assumes "bufferedCallback np = Some cb0" and "streamingCallback np = None"
    and "commandQueue np = (args, cb) # rest"
  shows "onClose code np =
    (np\<lparr>bufferedCallback := Some cb, bufferedData := [], commandQueue := rest\<rparr>,
     [BufferedCall cb0 (bufferedData np) (case code of None \<Rightarrow> 1 | Some c \<Rightarrow> c),
      Spawn npconfigPath args defaultCommandTimeoutMs])"
  using assms by (simp add: onClose_def runBuffered_def run_def Let_def splice_js_clear)

lemma onClose_buffered_last:
  assumes "bufferedCallback np = Some cb0" and "streamingCallback np = None"
    and "commandQueue np = []"
  shows "onClose code np =
    (np\<lparr>bufferedCallback := None\<rparr>,
     [BufferedCall cb0 (bufferedData np) (case code of None \<Rightarrow> 1 | Some c \<Rightarrow> c)])"
  using assms by (simp add: onClose_def Let_def)

text \<open>
  Draining the queue: with a buffered command running and \<open>n\<close> commands queued,
  \<open>n + 1\<close> process terminations complete the running command and then start and
  complete the queued commands one after the other, head first.
\<close>

lemma closeAll_drain:
  "bufferedCallback np = Some cb0 \<Longrightarrow> streamingCallback np = None \<Longrightarrow>
   length codes = length (commandQueue np) \<Longrightarrow>
   snd (closeAll (code0 # codes) np) =
     BufferedCall cb0 (bufferedData np) (case code0 of None \<Rightarrow> 1 | Some c \<Rightarrow> c) #
     concat (map (\<lambda>(command, code).
        [Spawn npconfigPath (fst command) defaultCommandTimeoutMs,
         BufferedCall (snd command) [] (case code of None \<Rightarrow> 1 | Some c \<Rightarrow> c)])
       (zip (commandQueue np) codes))
   \<and> bufferedCallback (fst (closeAll (code0 # codes) np)) = None
   \<and> commandQueue (fst (closeAll (code0 # codes) np)) = []"
proof (induction codes arbitrary: np cb0 code0)
  case Nil
  then show ?case by (simp add: onClose_buffered_last)
next
  case (Cons k ks)
  then obtain args cb rest where q: "commandQueue np = (args, cb) # rest"
    by (cases "commandQueue np") auto
  let ?np1 = "np\<lparr>bufferedCallback := Some cb, bufferedData := [], commandQueue := rest\<rparr>"
  have step: "onClose code0 np =
    (?np1, [BufferedCall cb0 (bufferedData np) (case code0 of None \<Rightarrow> 1 | Some c \<Rightarrow> c),
            Spawn npconfigPath args defaultCommandTimeoutMs])"
    using Cons.prems q by (simp add: onClose_buffered_next)
  have ih: "snd (closeAll (k # ks) ?np1) =
     BufferedCall cb (bufferedData ?np1) (case k of None \<Rightarrow> 1 | Some c \<Rightarrow> c) #
     concat (map (\<lambda>(command, code).
        [Spawn npconfigPath (fst command) defaultCommandTimeoutMs,
         BufferedCall (snd command) [] (case code of None \<Rightarrow> 1 | Some c \<Rightarrow> c)])
       (zip (commandQueue ?np1) ks))
   \<and> bufferedCallback (fst (closeAll (k # ks) ?np1)) = None
   \<and> commandQueue (fst (closeAll (k # ks) ?np1)) = []"
    using Cons.prems q by (intro Cons.IH) auto
  show ?case
    using ih by (simp add: step q split: prod.splits)
qed

text \<open>
  C2. While a buffered command is running, a further \<open>runBuffered\<close> request is accepted
  and put at the end of the queue as long as the queue holds fewer than 2 entries, and
  is rejected, leaving the gateway as it is, once the queue holds 2. When the running
  command completes, the queued commands are taken from the head and run one at a time
  in their arrival order: each is spawned only at the termination of the one before
  it, and its callback gets its own completion.
\<close>

theorem runBuffered_queue_fifo:
  assumes "bufferedCallback np = Some cb0" and "streamingCallback np = None"
  shows "(length (commandQueue np) < 2 \<longrightarrow>
            runBuffered args cb t np =
              (True, np\<lparr>commandQueue := commandQueue np @ [(args, cb)]\<rparr>, []))
       \<and> (2 \<le> length (commandQueue np) \<longrightarrow> runBuffered args cb t np = (False, np, []))
       \<and> (length codes = length (commandQueue np) \<longrightarrow>
            snd (closeAll (code0 # codes) np) =
              BufferedCall cb0 (bufferedData np) (case code0 of None \<Rightarrow> 1 | Some c \<Rightarrow> c) #
              concat (map (\<lambda>(command, code).
                 [Spawn npconfigPath (fst command) defaultCommandTimeoutMs,
                  BufferedCall (snd command) [] (case code of None \<Rightarrow> 1 | Some c \<Rightarrow> c)])
                (zip (commandQueue np) codes))
            \<and> bufferedCallback (fst (closeAll (code0 # codes) np)) = None
            \<and> commandQueue (fst (closeAll (code0 # codes) np)) = [])"
  using assms closeAll_drain [of np cb0 codes code0]
  by (simp add: runBuffered_def maxCommandQueueLength_def)

theorem runBuffered_queue_fifo_witness:
  "runBuffered [''-r '', ''/dev/a''] (2::nat) 20000
      \<lparr>bufferedCallback = Some 0, streamingCallback = (None :: nat option),
       bufferedData = [''1.2.3''], activeDevice = None, commandQueue = [([''-x''], 1)]\<rparr>
     = (True,
        \<lparr>bufferedCallback = Some 0, streamingCallback = None, bufferedData = [''1.2.3''],
         activeDevice = None,
         commandQueue = [([''-x''], 1), ([''-r '', ''/dev/a''], 2)]\<rparr>, [])
   \<and> runBuffered [''-v''] (3::nat) 20000
      \<lparr>bufferedCallback = Some 0, streamingCallback = (None :: nat option),
       bufferedData = [''1.2.3''], activeDevice = None,
       commandQueue = [([''-x''], 1), ([''-r '', ''/dev/a''], 2)]\<rparr>
     = (False,
        \<lparr>bufferedCallback = Some 0, streamingCallback = None, bufferedData = [''1.2.3''],
         activeDevice = None,
         commandQueue = [([''-x''], 1), ([''-r '', ''/dev/a''], 2)]\<rparr>, [])
   \<and> snd (closeAll [Some 0, None, Some 0]
      \<lparr>bufferedCallback = Some (0::nat), streamingCallback = (None :: nat option),
       bufferedData = [''1.2.3''], activeDevice = None,
       commandQueue = [([''-x''], 1), ([''-r '', ''/dev/a''], 2)]\<rparr>)
     = [BufferedCall 0 [''1.2.3''] 0,
        Spawn npconfigPath [''-x''] defaultCommandTimeoutMs, BufferedCall 1 [] 1,
        Spawn npconfigPath [''-r '', ''/dev/a''] defaultCommandTimeoutMs, BufferedCall 2 [] 0]"
  using
    runBuffered_queue_fifo [of
      "\<lparr>bufferedCallback = Some (0::nat), streamingCallback = (None :: nat option),
        bufferedData = [''1.2.3''], activeDevice = None, commandQueue = [([''-x''], 1)]\<rparr>"
      0 "[''-r '', ''/dev/a'']" 2 20000 "[None]" "Some 0"]
    runBuffered_queue_fifo [of
      "\<lparr>bufferedCallback = Some (0::nat), streamingCallback = (None :: nat option),
        bufferedData = [''1.2.3''], activeDevice = None,
        commandQueue = [([''-x''], 1), ([''-r '', ''/dev/a''], 2)]\<rparr>"
      0 "[''-v'']" 3 20000 "[None, Some 0]" "Some 0"]
  by simp

text \<open>
  C6. While a command is in flight, buffered or streaming, a \<open>runStreaming\<close> request
  returns false, starts nothing and leaves the gateway as it is. No \<open>runStreaming\<close>
  request, accepted or not, changes the command queue (whose entries carry buffered
  callbacks only).
\<close>

theorem runStreaming_busy_rejected:
  "(bufferedCallback np \<noteq> None \<or> streamingCallback np \<noteq> None \<longrightarrow>
      runStreaming args cb t np = (False, np, []))
   \<and> commandQueue (fst (snd (runStreaming args cb t np))) = commandQueue np"
  by (simp add: runStreaming_def run_def)

theorem runStreaming_busy_rejected_witness:
  "runStreaming [''-l''] (7::nat) 20000
      (fst (snd (runBuffered [''-v''] (0::nat) 20000 newNPConfig)))
     = (False, fst (snd (runBuffered [''-v''] 0 20000 newNPConfig)), [])
   \<and> runStreaming [''-l''] (8::nat) 20000
      (fst (snd (runStreaming [''-p ''] (7::nat) 20000 (newNPConfig :: (nat, nat) NPConfig))))
     = (False, fst (snd (runStreaming [''-p ''] 7 20000 newNPConfig)), [])"
  using
    runStreaming_busy_rejected [of
      "fst (snd (runBuffered [''-v''] (0::nat) 20000 (newNPConfig :: (nat, nat) NPConfig)))"
      "[''-l'']" 7 20000]
    runStreaming_busy_rejected [of
      "fst (snd (runStreaming [''-p ''] (7::nat) 20000 (newNPConfig :: (nat, nat) NPConfig)))"
      "[''-l'']" 8 20000]
  by (simp add: runBuffered_def runStreaming_def run_def newNPConfig_def)

text \<open>
  C7. When the process closes with a null exit code, the callback that is registered,
  streaming or buffered, is called with status 1. The buffered callback's status is a
  number by its type; every call of the streaming callback that \<open>onClose\<close> makes, for
  any exit code, carries a status that is not null.
\<close>

theorem onClose_null_code_status:
  "(streamingCallback np = Some s \<longrightarrow>
      take 1 (snd (onClose None np)) = [StreamingCall s (Some []) (Some 1)])
   \<and> (streamingCallback np = None \<and> bufferedCallback np = Some b \<longrightarrow>
      take 1 (snd (onClose None np)) = [BufferedCall b (bufferedData np) 1])
   \<and> (\<forall>cb d st. StreamingCall cb d st \<in> set (snd (onClose code np)) \<longrightarrow> st \<noteq> None)"
  by (auto simp: onClose_def runBuffered_def run_def Let_def
      split: option.splits list.splits if_splits prod.splits)

theorem onClose_null_code_status_witness:
  "snd (onClose None
      (fst (snd (runStreaming [''-l''] (7::nat) 20000 (newNPConfig :: (nat, nat) NPConfig)))))
     = [StreamingCall 7 (Some []) (Some 1)]
   \<and> snd (onClose None
      (fst (snd (runBuffered [''-v''] (3::nat) 20000 (newNPConfig :: (nat, nat) NPConfig)))))
     = [BufferedCall 3 [] 1]"
  using
    onClose_null_code_status [of
      "fst (snd (runStreaming [''-l''] (7::nat) 20000 (newNPConfig :: (nat, nat) NPConfig)))"
      7 3 None]
    onClose_null_code_status [of
      "fst (snd (runBuffered [''-v''] (3::nat) 20000 (newNPConfig :: (nat, nat) NPConfig)))"
      7 3 None]
  by (simp add: onClose_def runBuffered_def runStreaming_def run_def newNPConfig_def
      splice_js_def)

text \<open>
  C10. \<open>setDefaultDevice d\<close> sets the active device only when none is set. After
  \<open>selectDevice\<close>, or after an earlier \<open>setDefaultDevice\<close>, a later \<open>setDefaultDevice\<close>
  leaves the gateway as it is: a default never overrides a device already chosen.
\<close>

theorem setDefaultDevice_only_when_unset:
  "(activeDevice np = None \<longrightarrow> setDefaultDevice d np = np\<lparr>activeDevice := Some d\<rparr>)
   \<and> (activeDevice np \<noteq> None \<longrightarrow> setDefaultDevice d np = np)
   \<and> setDefaultDevice d (selectDevice d0 np) = selectDevice d0 np
   \<and> setDefaultDevice d (setDefaultDevice d0 np) = setDefaultDevice d0 np"
  by (simp add: setDefaultDevice_def selectDevice_def)

theorem setDefaultDevice_only_when_unset_witness:
  "activeDevice (setDefaultDevice ''/dev/b'' (newNPConfig :: (nat, nat) NPConfig))
     = Some ''/dev/b''
   \<and> activeDevice (setDefaultDevice ''/dev/b''
        (selectDevice ''/dev/a'' (newNPConfig :: (nat, nat) NPConfig))) = Some ''/dev/a''"
  using
    setDefaultDevice_only_when_unset [of "newNPConfig :: (nat, nat) NPConfig" "''/dev/b''"
      "''/dev/a''"]
    setDefaultDevice_only_when_unset [of
      "selectDevice ''/dev/a'' (newNPConfig :: (nat, nat) NPConfig)" "''/dev/b''" "''/dev/a''"]
  by (simp add: newNPConfig_def selectDevice_def)

text \<open>
  C4 fails. In buffered mode the utility writes the line \<open>hello\<close> as the two chunks
  \<open>hel\<close> and \<open>lo\<close>, with no newline between them, and exits with status 0. Each
  chunk is trimmed and split on its own and its fragments are inserted by
  \<open>splice(-1, 0, ...)\<close>, that is before the last entry of the accumulated list: the
  callback receives the two entries \<open>lo\<close>, \<open>hel\<close>, not the one line \<open>hello\<close>.
\<close>

theorem onStdout_line_across_chunks:
  "snd (onClose (Some 0) (fst (onStdout ''lo'' (fst (onStdout ''hel''
      (fst (snd (runBuffered [''-v''] (0::nat) 20000
         (newNPConfig :: (nat, nat) NPConfig)))))))))
     = [BufferedCall 0 [''lo'', ''hel''] 0]
   \<and> [''lo'', ''hel''] \<noteq> [''hello'']"
  by (simp add: onClose_def onStdout_def runBuffered_def run_def newNPConfig_def Let_def
      splice_js_def trim_def isWhiteSpace_def LF_def)


section \<open>Update Orchestrator: properties\<close>

text \<open>
  C3. For every state \<open>S\<close>, \<open>enterState S\<close> called while the current state is \<open>S\<close>
  returns normally and leaves the orchestrator exactly as it was. The orchestrator's
  output is part of its state: it would hold the \<open>SendStateChange\<close> notification,
  the \<open>LogInject\<close> line of every event injected (Exit and Enter included) and the call
  of the \<open>onStateChange\<close> hook; none is added, and the current state, the adapters and
  the product details are unchanged.
\<close>

theorem enterState_current_is_noop:
  "currentState \<sigma> = Some S \<Longrightarrow> enterState S \<sigma> = Inr \<sigma>"
  by (simp add: enterState.simps)

theorem enterState_current_is_noop_witness:
  "enterState Detecting (newFsm\<lparr>currentState := Some Detecting, onStateChange := Some 0\<rparr>)
    = Inr (newFsm\<lparr>currentState := Some Detecting, onStateChange := Some 0\<rparr>)"
  using enterState_current_is_noop
    [of "newFsm\<lparr>currentState := Some Detecting, onStateChange := Some 0\<rparr>" Detecting]
  by simp

lemma injectEvent_failure_when_checking:
  assumes "currentState \<sigma> = Some CheckingForUpdate"
  shows "injectEvent UpdateCheckFailure \<sigma> =
     Inr (\<sigma>\<lparr>currentState := Some CheckFailedCached,
            trace := trace \<sigma> @
              [LogInject (Some CheckingForUpdate) UpdateCheckFailure,
               SendStateChange CheckFailedCached,
               LogInject (Some CheckingForUpdate) Exit,
               LogInject (Some CheckFailedCached) Enter] @
              (case onStateChange \<sigma> of
                 None \<Rightarrow> []
               | Some hook \<Rightarrow> [StateChangeHook hook CheckFailedCached])\<rparr>)"
  using assms
  by (simp add: injectEvent.simps enterState.simps emit_def haveCachedFiles_def
      split: option.splits)

text \<open>
  C8. In \<open>CheckingForUpdate\<close>, a repository listing that delivers an empty array makes
  the orchestrator inject the check failure and move to \<open>CheckFailedCached\<close>: that
  state is announced to the observer, \<open>CheckingForUpdate\<close> gets Exit,
  \<open>CheckFailedCached\<close> gets Enter, and nothing else happens; in particular
  \<open>CheckFailedOffline\<close> is neither announced nor entered.
\<close>

theorem empty_listing_goes_to_cached:
  assumes "currentState \<sigma> = Some CheckingForUpdate"
  shows "onRepositoryList (Some []) \<sigma> =
     Inr (\<sigma>\<lparr>currentState := Some CheckFailedCached,
            trace := trace \<sigma> @
              [LogInject (Some CheckingForUpdate) UpdateCheckFailure,
               SendStateChange CheckFailedCached,
               LogInject (Some CheckingForUpdate) Exit,
               LogInject (Some CheckFailedCached) Enter] @
              (case onStateChange \<sigma> of
                 None \<Rightarrow> []
               | Some hook \<Rightarrow> [StateChangeHook hook CheckFailedCached])\<rparr>)"
  using assms by (simp add: onRepositoryList_def injectEvent_failure_when_checking)

theorem empty_listing_goes_to_cached_witness:
  "map_sum id (\<lambda>\<sigma>. (currentState \<sigma>, trace \<sigma>))
     (onRepositoryList (Some []) (newFsm\<lparr>currentState := Some CheckingForUpdate\<rparr>))
   = Inr (Some CheckFailedCached,
          [LogInject (Some CheckingForUpdate) UpdateCheckFailure,
           SendStateChange CheckFailedCached,
           LogInject (Some CheckingForUpdate) Exit,
           LogInject (Some CheckFailedCached) Enter])"
  using empty_listing_goes_to_cached [of "newFsm\<lparr>currentState := Some CheckingForUpdate\<rparr>"]
  by (simp add: newFsm_def)

section \<open>Repository Sync Client and the orchestrator: the download batch\<close>

lemma split_nonempty: "split sep s \<noteq> []"
  by (induction s) (auto split: list.splits)

lemma downloadEach_repo:
  "fst (downloadEach objectKeys fp cb b repo) =
     repo\<lparr>downloads := downloads repo @ map (downloadRequest fp cb b) objectKeys\<rparr>"
proof (induction objectKeys arbitrary: repo)
  case Nil
  then show ?case by simp
next
  case (Cons element rest)
  have "0 < length (split (CHR ''/'') element)"
    using split_nonempty [of "CHR ''/''" element] by simp
  then show ?case
    using Cons.IH [of "fst (doDownloadFile element
        (fp @ ''/'' @ last (split (CHR ''/'') element)) cb b repo)"]
    by (simp add: Let_def doDownloadFile_def downloadRequest_def case_prod_beta)
qed

lemma downloadFiles_repo:
  "fst (downloadFiles objectKeys fp cb repo) =
     repo\<lparr>batches := batches repo @
             [\<lparr>completed = 0, batch_count = length objectKeys, success = 0\<rparr>],
          downloads := downloads repo @
             map (downloadRequest fp cb (length (batches repo))) objectKeys\<rparr>"
  by (simp add: downloadFiles_def downloadEach_repo)

lemma onRepositoryList_keys:
  assumes "objectKeys \<noteq> []"
  shows "onRepositoryList (Some objectKeys) \<sigma> =
     Inr (\<sigma>\<lparr>updateRepo := fst (downloadFiles objectKeys cacheLocation OnRepositoryDownload
                                  (updateRepo \<sigma>)),
            trace := trace \<sigma> @ map S3 (snd (downloadFiles objectKeys cacheLocation
                                  OnRepositoryDownload (updateRepo \<sigma>)))\<rparr>)"
  using assms by (simp add: onRepositoryList_def emit_def split: prod.splits)

lemma injectEvent_check_outcome:
  assumes "event = UpdateCheckSuccess \<or> event = UpdateCheckFailure"
  shows "\<exists>\<sigma>1 out. injectEvent event \<sigma> = Inr \<sigma>1
           \<and> trace \<sigma>1 = trace \<sigma> @ LogInject (currentState \<sigma>) event # out
           \<and> filter isBatchLog out = []
           \<and> updateRepo \<sigma>1 = updateRepo \<sigma>
           \<and> currentState \<sigma>1 = afterOutcome (currentState \<sigma>) event"
proof (cases "currentState \<sigma>")
  case None
  then show ?thesis by (simp add: injectEvent.simps emit_def afterOutcome_def)
next
  case (Some state)
  then show ?thesis
    using assms
    by (cases state)
      (auto simp: injectEvent.simps enterState.simps emit_def haveCachedFiles_def
        afterOutcome_def split: option.splits)
qed

lemma getObjectDone_counted:
  assumes "i < length (downloads repo)"
    and "batch (downloads repo ! i) = b" and "b < length (batches repo)"
    and "batches repo ! b = \<lparr>completed = c, batch_count = n, success = s\<rparr>"
    and "\<not> (isBody r \<and> w = WriteThrows)"
  shows "getObjectDone i r w repo =
    (repo\<lparr>batches := (batches repo)
             [b := \<lparr>completed = Suc c, batch_count = n,
                    success = s + (if isBody r then 1 else 0)\<rparr>]\<rparr>,
     (case r of GetBody body \<Rightarrow> [S3IO (WriteFileSync (filePath (downloads repo ! i)) body)]
              | _ \<Rightarrow> []) @
     [DownloadCall (callback (downloads repo ! i)) (filePath (downloads repo ! i)) (isBody r)
        \<lparr>completed = Suc c, batch_count = n,
         success = s + (if isBody r then 1 else 0)\<rparr>],
     None)"
  using assms by (cases r) (simp_all add: getObjectDone_def Let_def isBody_def)

lemma case_DownloadCb: "(case cb of OnRepositoryDownload \<Rightarrow> f) = f"
  by (cases cb) simp

lemma repoEffects_last:
  "(case (case X of Inl e \<Rightarrow> Inl e | Inr \<tau> \<Rightarrow> repoEffects [] \<tau>) of
      Inl e \<Rightarrow> Inl e
    | Inr \<tau> \<Rightarrow> (case None of None \<Rightarrow> Inr \<tau> | Some e \<Rightarrow> Inl e)) = X"
  by (cases X) simp_all

lemma s3GetObjectDone_call:
  assumes "i < length (downloads (updateRepo \<sigma>))"
    and "batch (downloads (updateRepo \<sigma>) ! i) = b" and "b < length (batches (updateRepo \<sigma>))"
    and "batches (updateRepo \<sigma>) ! b = \<lparr>completed = c, batch_count = n, success = s\<rparr>"
    and "\<not> (isBody r \<and> w = WriteThrows)"
  shows "s3GetObjectDone i r w \<sigma> =
     onRepositoryDownload (filePath (downloads (updateRepo \<sigma>) ! i)) (isBody r)
        \<lparr>completed = Suc c, batch_count = n, success = s + (if isBody r then 1 else 0)\<rparr>
        (\<sigma>\<lparr>updateRepo := fst (getObjectDone i r w (updateRepo \<sigma>)),
           trace := trace \<sigma> @
             (case r of GetBody body \<Rightarrow>
                [S3 (WriteFileSync (filePath (downloads (updateRepo \<sigma>) ! i)) body)]
              | _ \<Rightarrow> [])\<rparr>)"
  unfolding s3GetObjectDone_def getObjectDone_counted [OF assms]
  by (cases r) (simp_all add: emit_def isBody_def case_DownloadCb repoEffects_last)

lemma s3GetObjectDone_not_last:
  assumes "i < length (downloads (updateRepo \<sigma>))"
    and "batch (downloads (updateRepo \<sigma>) ! i) = b" and "b < length (batches (updateRepo \<sigma>))"
    and "batches (updateRepo \<sigma>) ! b = \<lparr>completed = c, batch_count = n, success = s\<rparr>"
    and "\<not> (isBody r \<and> w = WriteThrows)"
    and "Suc c \<noteq> n"
  shows "\<exists>out. s3GetObjectDone i r w \<sigma> =
      Inr (\<sigma>\<lparr>updateRepo := fst (getObjectDone i r w (updateRepo \<sigma>)),
             trace := trace \<sigma> @ out\<rparr>)
    \<and> filter isBatchLog out =
        [LogDownload (filePath (downloads (updateRepo \<sigma>) ! i)) (Suc c) n (isBody r)]"
proof -
  define wr where "wr = (case r of GetBody body \<Rightarrow>
                [S3 (WriteFileSync (filePath (downloads (updateRepo \<sigma>) ! i)) body)]
            | _ \<Rightarrow> [])"
  define dl where "dl = LogDownload (filePath (downloads (updateRepo \<sigma>) ! i)) (Suc c) n
                    (isBody r)"
  have wr: "filter isBatchLog wr = []"
    by (cases r) (simp_all add: wr_def)
  have "s3GetObjectDone i r w \<sigma> =
      Inr (\<sigma>\<lparr>updateRepo := fst (getObjectDone i r w (updateRepo \<sigma>)),
             trace := trace \<sigma> @ (wr @ [dl])\<rparr>)"
    unfolding s3GetObjectDone_call [OF assms(1-5)] wr_def dl_def
    using assms(6) by (simp add: onRepositoryDownload_def emit_def)
  moreover have "filter isBatchLog (wr @ [dl]) = [dl]"
    using wr by (simp add: dl_def)
  ultimately show ?thesis
    unfolding dl_def by blast
qed

lemma s3GetObjectDone_last:
  assumes "i < length (downloads (updateRepo \<sigma>))"
    and "batch (downloads (updateRepo \<sigma>) ! i) = b" and "b < length (batches (updateRepo \<sigma>))"
    and "batches (updateRepo \<sigma>) ! b = \<lparr>completed = c, batch_count = Suc c, success = s\<rparr>"
    and "\<not> (isBody r \<and> w = WriteThrows)"
  shows "\<exists>\<sigma>0 \<sigma>1 pre out.
      s3GetObjectDone i r w \<sigma> =
        injectEvent (if 0 < s + (if isBody r then 1 else 0) then UpdateCheckSuccess
                     else UpdateCheckFailure) \<sigma>0
    \<and> \<sigma>0 = \<sigma>\<lparr>updateRepo := fst (getObjectDone i r w (updateRepo \<sigma>)),
                trace := trace \<sigma> @ pre\<rparr>
    \<and> filter isBatchLog pre =
        [LogDownload (filePath (downloads (updateRepo \<sigma>) ! i)) (Suc c) (Suc c) (isBody r)]
    \<and> injectEvent (if 0 < s + (if isBody r then 1 else 0) then UpdateCheckSuccess
                     else UpdateCheckFailure) \<sigma>0 = Inr \<sigma>1
    \<and> trace \<sigma>1 = trace \<sigma> @ out
    \<and> updateRepo \<sigma>1 = fst (getObjectDone i r w (updateRepo \<sigma>))
    \<and> currentState \<sigma>1 =
        afterOutcome (currentState \<sigma>)
          (if 0 < s + (if isBody r then 1 else 0) then UpdateCheckSuccess
           else UpdateCheckFailure)
    \<and> filter isBatchLog out =
        [LogDownload (filePath (downloads (updateRepo \<sigma>) ! i)) (Suc c) (Suc c) (isBody r),
         LogInject (currentState \<sigma>)
           (if 0 < s + (if isBody r then 1 else 0) then UpdateCheckSuccess
            else UpdateCheckFailure)]"
proof -
  define ev where "ev = (if 0 < s + (if isBody r then 1 else 0) then UpdateCheckSuccess
             else UpdateCheckFailure)"
  define wr where "wr = (case r of GetBody body \<Rightarrow>
                [S3 (WriteFileSync (filePath (downloads (updateRepo \<sigma>) ! i)) body)]
            | _ \<Rightarrow> [])"
  define dl where "dl = LogDownload (filePath (downloads (updateRepo \<sigma>) ! i)) (Suc c) (Suc c)
                    (isBody r)"
  define \<sigma>' where "\<sigma>' = \<sigma>\<lparr>updateRepo := fst (getObjectDone i r w (updateRepo \<sigma>)),
               trace := trace \<sigma> @ (wr @ [dl])\<rparr>"
  have eq: "s3GetObjectDone i r w \<sigma> = injectEvent ev \<sigma>'"
    unfolding s3GetObjectDone_call [OF assms] wr_def dl_def \<sigma>'_def ev_def
    by (simp add: onRepositoryDownload_def emit_def)
  have "ev = UpdateCheckSuccess \<or> ev = UpdateCheckFailure"
    by (simp add: ev_def)
  from injectEvent_check_outcome [OF this, of \<sigma>']
  obtain \<sigma>1 out where inj: "injectEvent ev \<sigma>' = Inr \<sigma>1"
      and tr: "trace \<sigma>1 = trace \<sigma>' @ LogInject (currentState \<sigma>') ev # out"
      and flt: "filter isBatchLog out = []"
      and rp: "updateRepo \<sigma>1 = updateRepo \<sigma>'"
      and cs: "currentState \<sigma>1 = afterOutcome (currentState \<sigma>') ev"
    by blast
  have wr: "filter isBatchLog wr = []"
    by (cases r) (simp_all add: wr_def)
  have dl: "isBatchLog dl"
    by (simp add: dl_def)
  have evlog: "isBatchLog (LogInject (currentState \<sigma>) ev)"
    by (simp add: ev_def)
  have 0: "filter isBatchLog (wr @ [dl]) = [dl]"
    using wr dl by simp
  have 2: "trace \<sigma>1 = trace \<sigma> @ (wr @ [dl] @ LogInject (currentState \<sigma>) ev # out)"
    by (simp add: tr \<sigma>'_def)
  have 3: "updateRepo \<sigma>1 = fst (getObjectDone i r w (updateRepo \<sigma>))"
    by (simp add: rp \<sigma>'_def)
  have 4: "filter isBatchLog (wr @ [dl] @ LogInject (currentState \<sigma>) ev # out) =
      [dl, LogInject (currentState \<sigma>) ev]"
    using wr dl evlog flt by simp
  have 5: "currentState \<sigma>1 = afterOutcome (currentState \<sigma>) ev"
    by (simp add: cs \<sigma>'_def)
  show ?thesis
    using eq inj 0 2 3 4 5 unfolding dl_def ev_def \<sigma>'_def by blast
qed

lemma getObjectDone_frame:
  assumes "i < length (downloads repo)"
    and "batch (downloads repo ! i) = b" and "b < length (batches repo)"
    and "batches repo ! b = \<lparr>completed = c, batch_count = n, success = s\<rparr>"
    and "\<not> (isBody r \<and> w = WriteThrows)"
  shows "length (batches (fst (getObjectDone i r w repo))) = length (batches repo)"
    and "batches (fst (getObjectDone i r w repo)) ! b =
           \<lparr>completed = Suc c, batch_count = n, success = s + (if isBody r then 1 else 0)\<rparr>"
    and "downloads (fst (getObjectDone i r w repo)) = downloads repo"
  using assms
  by (simp_all add: getObjectDone_counted [OF assms])

text \<open>
  The completions \<open>evs\<close> of the requests of batch \<open>b\<close>, each request once and every
  write returning, when the batch has \<open>c\<close> completions and \<open>s\<close> successes behind it
  and \<open>count = c + length evs\<close>.
\<close>

lemma batch_run:
  assumes "distinct (map fst evs)" and "batchRequests \<sigma> b (map fst evs)"
    and "batches (updateRepo \<sigma>) ! b =
           \<lparr>completed = c, batch_count = c + length evs, success = s\<rparr>"
    and "list_all writeReturns evs"
  shows "\<exists>\<sigma>2 out. s3GetObjectsDone evs \<sigma> = Inr \<sigma>2 \<and> trace \<sigma>2 = trace \<sigma> @ out
     \<and> filter isBatchLog out = batchLog \<sigma> c s evs
     \<and> currentState \<sigma>2 =
         (if evs = [] then currentState \<sigma>
          else afterOutcome (currentState \<sigma>)
                 (if 0 < s + length (filter (\<lambda>ev. isBody (fst (snd ev))) evs)
                  then UpdateCheckSuccess else UpdateCheckFailure))
     \<and> batches (updateRepo \<sigma>2) ! b =
           \<lparr>completed = c + length evs, batch_count = c + length evs,
            success = s + length (filter (\<lambda>ev. isBody (fst (snd ev))) evs)\<rparr>"
  using assms
proof (induction evs arbitrary: \<sigma> c s)
  case Nil
  then show ?case by (simp add: batchLog_def)
next
  case (Cons e rest)
  obtain i r w where e: "e = (i, r, w)" by (cases e)
  let ?R = "updateRepo \<sigma>"
  have b: "b < length (batches ?R)"
    and i: "i < length (downloads ?R)" "batch (downloads ?R ! i) = b"
    using Cons.prems(2) by (simp_all add: batchRequests_def e)
  have wr: "\<not> (isBody r \<and> w = WriteThrows)"
    using Cons.prems(4) by (simp add: writeReturns_def e)
  show ?case
  proof (cases "rest = []")
    case True
    define ev where "ev = (if 0 < s + (if isBody r then 1 else 0) then UpdateCheckSuccess
           else UpdateCheckFailure)"
    have bt: "batches ?R ! b = \<lparr>completed = c, batch_count = Suc c, success = s\<rparr>"
      using Cons.prems(3) True by simp
    from s3GetObjectDone_last [OF i b bt wr]
    obtain \<sigma>1 out where 1: "s3GetObjectDone i r w \<sigma> = Inr \<sigma>1"
      and 2: "trace \<sigma>1 = trace \<sigma> @ out"
      and 3: "updateRepo \<sigma>1 = fst (getObjectDone i r w ?R)"
      and 4: "filter isBatchLog out =
        [LogDownload (filePath (downloads ?R ! i)) (Suc c) (Suc c) (isBody r),
         LogInject (currentState \<sigma>) ev]"
      and 7: "currentState \<sigma>1 = afterOutcome (currentState \<sigma>) ev"
      unfolding ev_def by metis
    have 5: "batches (updateRepo \<sigma>1) ! b =
        \<lparr>completed = Suc c, batch_count = Suc c, success = s + (if isBody r then 1 else 0)\<rparr>"
      unfolding 3 by (rule getObjectDone_frame(2) [OF i b bt wr])
    have "s3GetObjectsDone (e # rest) \<sigma> = Inr \<sigma>1"
      using 1 True by (simp add: e)
    moreover have "filter isBatchLog out = batchLog \<sigma> c s (e # rest)"
      using 4 True by (simp add: batchLog_def e ev_def)
    moreover have "batches (updateRepo \<sigma>1) ! b =
        \<lparr>completed = c + length (e # rest), batch_count = c + length (e # rest),
         success = s + length (filter (\<lambda>ev. isBody (fst (snd ev))) (e # rest))\<rparr>"
      using 5 True by (simp add: e)
    moreover have "currentState \<sigma>1 =
         (if e # rest = [] then currentState \<sigma>
          else afterOutcome (currentState \<sigma>)
                 (if 0 < s + length (filter (\<lambda>ev. isBody (fst (snd ev))) (e # rest))
                  then UpdateCheckSuccess else UpdateCheckFailure))"
      using 7 True by (simp add: e ev_def)
    ultimately show ?thesis
      using 2 by blast
  next
    case False
    define n where "n = c + length (e # rest)"
    have bt: "batches ?R ! b = \<lparr>completed = c, batch_count = n, success = s\<rparr>"
      using Cons.prems(3) by (simp add: n_def)
    have ne: "Suc c \<noteq> n"
      using False by (simp add: n_def)
    from s3GetObjectDone_not_last [OF i b bt wr ne]
    obtain out1 where 1: "s3GetObjectDone i r w \<sigma> =
        Inr (\<sigma>\<lparr>updateRepo := fst (getObjectDone i r w ?R), trace := trace \<sigma> @ out1\<rparr>)"
      and 2: "filter isBatchLog out1 =
        [LogDownload (filePath (downloads ?R ! i)) (Suc c) n (isBody r)]"
      by blast
    define \<sigma>1 where
      "\<sigma>1 = \<sigma>\<lparr>updateRepo := fst (getObjectDone i r w ?R), trace := trace \<sigma> @ out1\<rparr>"
    define s1 where "s1 = s + (if isBody r then 1 else 0)"
    have R1: "updateRepo \<sigma>1 = fst (getObjectDone i r w ?R)"
      by (simp add: \<sigma>1_def)
    have dls: "downloads (updateRepo \<sigma>1) = downloads ?R"
      unfolding R1 by (rule getObjectDone_frame(3) [OF i b bt wr])
    have d: "distinct (map fst rest)"
      using Cons.prems(1) by (simp add: e)
    have wrs: "list_all writeReturns rest"
      using Cons.prems(4) by simp
    have pend: "batchRequests \<sigma>1 b (map fst rest)"
      using Cons.prems(2) b
      by (simp add: batchRequests_def R1 e getObjectDone_frame(1) [OF i b bt wr]
          getObjectDone_frame(3) [OF i b bt wr])
    have bt1: "batches (updateRepo \<sigma>1) ! b =
        \<lparr>completed = Suc c, batch_count = Suc c + length rest, success = s1\<rparr>"
      unfolding R1 s1_def using getObjectDone_frame(2) [OF i b bt wr]
      by (simp add: n_def)
    from Cons.IH [OF d pend bt1 wrs]
    obtain \<sigma>2 out2 where 3: "s3GetObjectsDone rest \<sigma>1 = Inr \<sigma>2"
      and 4: "trace \<sigma>2 = trace \<sigma>1 @ out2"
      and 5: "filter isBatchLog out2 = batchLog \<sigma>1 (Suc c) s1 rest"
      and 7: "currentState \<sigma>2 =
         (if rest = [] then currentState \<sigma>1
          else afterOutcome (currentState \<sigma>1)
                 (if 0 < s1 + length (filter (\<lambda>ev. isBody (fst (snd ev))) rest)
                  then UpdateCheckSuccess else UpdateCheckFailure))"
      and 6: "batches (updateRepo \<sigma>2) ! b =
           \<lparr>completed = Suc c + length rest, batch_count = Suc c + length rest,
            success = s1 + length (filter (\<lambda>ev. isBody (fst (snd ev))) rest)\<rparr>"
      by blast
    have cs: "currentState \<sigma>1 = currentState \<sigma>"
      by (simp add: \<sigma>1_def)
    have upt: "[Suc c ..< Suc (c + length (e # rest))] =
        Suc c # [Suc (Suc c) ..< Suc (Suc c + length rest)]"
    proof -
      have "[Suc c ..< Suc (c + length (e # rest))] =
          Suc c # [Suc (Suc c) ..< Suc (c + length (e # rest))]"
        by (rule upt_conv_Cons) simp
      then show ?thesis
        by (simp only: length_Cons add_Suc_right add_Suc)
    qed
    have log: "batchLog \<sigma> c s (e # rest) =
        LogDownload (filePath (downloads ?R ! i)) (Suc c) n (isBody r) #
        batchLog \<sigma>1 (Suc c) s1 rest"
      unfolding batchLog_def upt dls cs
      using False by (simp add: e n_def s1_def)
    have "s3GetObjectsDone (e # rest) \<sigma> = Inr \<sigma>2"
      using 1 3 by (simp add: e \<sigma>1_def)
    moreover have "trace \<sigma>2 = trace \<sigma> @ (out1 @ out2)"
      using 4 by (simp add: \<sigma>1_def)
    moreover have "filter isBatchLog (out1 @ out2) = batchLog \<sigma> c s (e # rest)"
      using 2 5 log by simp
    moreover have "batches (updateRepo \<sigma>2) ! b =
        \<lparr>completed = c + length (e # rest), batch_count = c + length (e # rest),
         success = s + length (filter (\<lambda>ev. isBody (fst (snd ev))) (e # rest))\<rparr>"
      using 6 by (simp add: e s1_def)
    moreover have "currentState \<sigma>2 =
         (if e # rest = [] then currentState \<sigma>
          else afterOutcome (currentState \<sigma>)
                 (if 0 < s + length (filter (\<lambda>ev. isBody (fst (snd ev))) (e # rest))
                  then UpdateCheckSuccess else UpdateCheckFailure))"
      using 7 False by (simp add: e s1_def cs)
    ultimately show ?thesis
      by blast
  qed
qed

text \<open>
  The whole batch, when every write returns. The orchestrator receives a listing of
  \<open>N > 0\<close> object keys and requests their download as one batch; the \<open>N\<close> downloads
  then complete, each once, in any order (the completions name the requests of the
  batch in any permutation) and with any results, and no \<open>writeFileSync\<close> throws.
  Then every completion is handled without an exception, and the batch story in the
  orchestrator's output is: one log line per download callback, the \<open>k\<close>-th of them
  showing \<open>completed = k\<close> and \<open>count = N\<close>, followed by one injection of a check
  outcome, success if at least one download succeeded and failure otherwise; the
  orchestrator is then in the state in which that outcome leaves it. At the end the
  batch record has \<open>completed = count = N\<close> and \<open>success\<close> the number of successful
  downloads.
\<close>

lemma download_batch_when_writes_return:
  assumes "objectKeys \<noteq> []"
    and "onRepositoryList (Some objectKeys) \<sigma> = Inr \<sigma>1"
    and "mset (map fst completions) =
           mset [length (downloads (updateRepo \<sigma>)) ..<
                 length (downloads (updateRepo \<sigma>)) + length objectKeys]"
    and "list_all writeReturns completions"
  shows "\<exists>\<sigma>2 out. s3GetObjectsDone completions \<sigma>1 = Inr \<sigma>2 \<and> trace \<sigma>2 = trace \<sigma>1 @ out
    \<and> filter isBatchLog out =
        map (\<lambda>(ev, k).
               LogDownload
                 (cacheLocation @ ''/'' @
                  last (split (CHR ''/'')
                          (objectKeys ! (fst ev - length (downloads (updateRepo \<sigma>))))))
                 k (length objectKeys) (isBody (fst (snd ev))))
            (zip completions [1 ..< Suc (length objectKeys)]) @
        [LogInject (currentState \<sigma>)
           (if 0 < length (filter (\<lambda>ev. isBody (fst (snd ev))) completions)
            then UpdateCheckSuccess else UpdateCheckFailure)]
    \<and> currentState \<sigma>2 =
        afterOutcome (currentState \<sigma>)
          (if 0 < length (filter (\<lambda>ev. isBody (fst (snd ev))) completions)
           then UpdateCheckSuccess else UpdateCheckFailure)
    \<and> batches (updateRepo \<sigma>2) ! length (batches (updateRepo \<sigma>)) =
        \<lparr>completed = length objectKeys, batch_count = length objectKeys,
         success = length (filter (\<lambda>ev. isBody (fst (snd ev))) completions)\<rparr>"
proof -
  let ?R = "updateRepo \<sigma>"
  define n0 where "n0 = length (downloads ?R)"
  define N where "N = length objectKeys"
  define b where "b = length (batches ?R)"
  define R1 where "R1 = ?R\<lparr>batches := batches ?R @
             [\<lparr>completed = 0, batch_count = N, success = 0\<rparr>],
          downloads := downloads ?R @
             map (downloadRequest cacheLocation OnRepositoryDownload b) objectKeys\<rparr>"
  have \<sigma>1: "\<sigma>1 = \<sigma>\<lparr>updateRepo := R1,
      trace := trace \<sigma> @ map S3 (snd (downloadFiles objectKeys cacheLocation
                                  OnRepositoryDownload ?R))\<rparr>"
    using assms(2) unfolding onRepositoryList_keys [OF assms(1)] downloadFiles_repo R1_def
      N_def b_def by simp
  have R1: "updateRepo \<sigma>1 = R1" and cs: "currentState \<sigma>1 = currentState \<sigma>"
    by (simp_all add: \<sigma>1)
  have len: "length completions = N"
    using mset_eq_length [OF assms(3)] by (simp add: N_def)
  have ids: "set (map fst completions) = {n0 ..< n0 + N}"
    using mset_eq_setD [OF assms(3)] by (simp add: n0_def N_def)
  have dist: "distinct (map fst completions)"
    using mset_eq_imp_distinct_iff [OF assms(3)] by simp
  have req: "downloads R1 ! i =
      downloadRequest cacheLocation OnRepositoryDownload b (objectKeys ! (i - n0))"
    if "i \<in> {n0 ..< n0 + N}" for i
  proof -
    have "i - n0 < length objectKeys" and "\<not> i < length (downloads ?R)"
      using that by (auto simp: n0_def N_def)
    then show ?thesis
      by (simp add: R1_def nth_append n0_def)
  qed
  have pend: "batchRequests \<sigma>1 b (map fst completions)"
    unfolding batchRequests_def R1 list_all_iff
  proof (intro conjI ballI)
    show "b < length (batches R1)"
      by (simp add: R1_def b_def)
    fix i assume "i \<in> set (map fst completions)"
    then have i: "i \<in> {n0 ..< n0 + N}" using ids by simp
    then have "i < length (downloads R1)"
      by (simp add: R1_def n0_def N_def)
    then show "i < length (downloads R1)" and "batch (downloads R1 ! i) = b"
      by (simp_all add: req [OF i] downloadRequest_def)
  qed
  have bt: "batches (updateRepo \<sigma>1) ! b =
      \<lparr>completed = 0, batch_count = 0 + length completions, success = 0\<rparr>"
    by (simp add: R1 R1_def b_def len)
  have ne: "completions \<noteq> []"
    using len assms(1) by (auto simp: N_def)
  from batch_run [OF dist pend bt assms(4)]
  obtain \<sigma>2 out where 1: "s3GetObjectsDone completions \<sigma>1 = Inr \<sigma>2"
    and 2: "trace \<sigma>2 = trace \<sigma>1 @ out"
    and 3: "filter isBatchLog out = batchLog \<sigma>1 0 0 completions"
    and 5: "currentState \<sigma>2 =
         (if completions = [] then currentState \<sigma>1
          else afterOutcome (currentState \<sigma>1)
                 (if 0 < 0 + length (filter (\<lambda>ev. isBody (fst (snd ev))) completions)
                  then UpdateCheckSuccess else UpdateCheckFailure))"
    and 4: "batches (updateRepo \<sigma>2) ! b =
           \<lparr>completed = 0 + length completions, batch_count = 0 + length completions,
            success = 0 + length (filter (\<lambda>ev. isBody (fst (snd ev))) completions)\<rparr>"
    by blast
  have fp: "filePath (downloads R1 ! fst ev) =
      cacheLocation @ ''/'' @ last (split (CHR ''/'') (objectKeys ! (fst ev - n0)))"
    if "ev \<in> set completions" for ev
  proof -
    have "fst ev \<in> {n0 ..< n0 + N}" using that ids by force
    then show ?thesis by (simp add: req downloadRequest_def)
  qed
  have m: "map (\<lambda>(ev, k). LogDownload (filePath (downloads R1 ! fst ev)) k N
                   (isBody (fst (snd ev))))
             (zip completions ks) =
           map (\<lambda>(ev, k). LogDownload
                 (cacheLocation @ ''/'' @ last (split (CHR ''/'') (objectKeys ! (fst ev - n0))))
                 k N (isBody (fst (snd ev))))
             (zip completions ks)" for ks
  proof (rule map_cong [OF refl])
    fix x assume x: "x \<in> set (zip completions ks)"
    obtain ev k where xe: "x = (ev, k)" by (cases x)
    then have "ev \<in> set completions" using x by (auto dest: set_zip_leftD)
    then show "(case x of (ev, k) \<Rightarrow>
          LogDownload (filePath (downloads R1 ! fst ev)) k N (isBody (fst (snd ev)))) =
        (case x of (ev, k) \<Rightarrow> LogDownload
                 (cacheLocation @ ''/'' @ last (split (CHR ''/'') (objectKeys ! (fst ev - n0))))
                 k N (isBody (fst (snd ev))))"
      by (simp add: xe fp)
  qed
  have log: "batchLog \<sigma>1 0 0 completions =
      map (\<lambda>(ev, k). LogDownload
                 (cacheLocation @ ''/'' @ last (split (CHR ''/'') (objectKeys ! (fst ev - n0))))
                 k N (isBody (fst (snd ev))))
         (zip completions [1 ..< Suc N]) @
      [LogInject (currentState \<sigma>)
           (if 0 < length (filter (\<lambda>ev. isBody (fst (snd ev))) completions)
            then UpdateCheckSuccess else UpdateCheckFailure)]"
    unfolding batchLog_def R1 cs using ne by (simp add: len m del: upt_Suc)
  have st: "currentState \<sigma>2 =
        afterOutcome (currentState \<sigma>)
          (if 0 < length (filter (\<lambda>ev. isBody (fst (snd ev))) completions)
           then UpdateCheckSuccess else UpdateCheckFailure)"
    using 5 ne by (simp add: cs)
  show ?thesis
    using 1 2 3 4 st unfolding log by (simp add: len n0_def N_def b_def del: upt_Suc)
qed

text \<open>
  For example: three keys are listed while the orchestrator checks for an update, the
  downloads complete in the order third, first, second, the first with an error, and
  the two writes return.
\<close>

lemma download_batch_example:
  "map_sum id (\<lambda>\<sigma>. (filter isBatchLog (trace \<sigma>), currentState \<sigma>))
     (s3GetObjectsDone [(2, GetBody ''C'', WriteReturns), (0, GetError, WriteReturns),
                        (1, GetBody ''B'', WriteReturns)]
        (projr (onRepositoryList (Some [''NonStreamers/a.xml'', ''NonStreamers/b.xml'', ''c.xml''])
                  (newFsm\<lparr>currentState := Some CheckingForUpdate\<rparr>))))
   = Inr ([LogDownload ''./c.xml'' 1 3 True, LogDownload ''./a.xml'' 2 3 False,
           LogDownload ''./b.xml'' 3 3 True,
           LogInject (Some CheckingForUpdate) UpdateCheckSuccess],
          Some ConnectPrompt)"
  by (simp add: onRepositoryList_def downloadFiles_def doDownloadFile_def Let_def
      newFsm_def newUpdateRepository_def emit_def cacheLocation_def
      s3GetObjectDone_def getObjectDone_def onRepositoryDownload_def
      injectEvent.simps enterState.simps numeral_2_eq_2 numeral_3_eq_3 bucketName_def)

text \<open>
  C1 fails when a write throws. One key is listed while the orchestrator checks for an
  update, the object arrives with a body, and \<open>fs.writeFileSync\<close> throws (the cache
  file cannot be written). The exception leaves the \<open>getObject\<close> callback before
  \<open>batch.completed += 1\<close> and before the download callback: the completion of the
  only download of the batch leaves \<open>completed = 0\<close> with \<open>count = 1\<close>, the
  orchestrator's download callback is not called and no check outcome is injected.
  With two keys, the first write throwing and the second download succeeding, both
  downloads have completed and the batch stands at \<open>completed = 1\<close>, \<open>count = 2\<close>:
  the second callback is logged with 1 of 2, no outcome is injected and the
  orchestrator stays in \<open>CheckingForUpdate\<close>.
\<close>

theorem download_batch_write_throws:
  "getObjectDone 0 (GetBody ''x'') WriteThrows
       (updateRepo (projr (onRepositoryList (Some [''NonStreamers/a.xml''])
          (newFsm\<lparr>currentState := Some CheckingForUpdate\<rparr>))))
     = (updateRepo (projr (onRepositoryList (Some [''NonStreamers/a.xml''])
          (newFsm\<lparr>currentState := Some CheckingForUpdate\<rparr>))),
        [S3IO (WriteFileSync ''./a.xml'' ''x'')], Some FsError)
   \<and> batches (updateRepo (projr (onRepositoryList (Some [''NonStreamers/a.xml''])
          (newFsm\<lparr>currentState := Some CheckingForUpdate\<rparr>))))
     = [\<lparr>completed = 0, batch_count = 1, success = 0\<rparr>]
   \<and> s3GetObjectsDone [(0, GetBody ''x'', WriteThrows)]
       (projr (onRepositoryList (Some [''NonStreamers/a.xml''])
          (newFsm\<lparr>currentState := Some CheckingForUpdate\<rparr>)))
     = Inl FsError
   \<and> s3GetObjectDone 0 (GetBody ''x'') WriteThrows
       (projr (onRepositoryList (Some [''NonStreamers/a.xml'', ''NonStreamers/b.xml''])
          (newFsm\<lparr>currentState := Some CheckingForUpdate\<rparr>)))
     = Inl FsError
   \<and> map_sum id (\<lambda>\<sigma>. (filter isBatchLog (trace \<sigma>), currentState \<sigma>, batches (updateRepo \<sigma>)))
       (s3GetObjectDone 1 (GetBody ''y'') WriteReturns
          (projr (onRepositoryList (Some [''NonStreamers/a.xml'', ''NonStreamers/b.xml''])
             (newFsm\<lparr>currentState := Some CheckingForUpdate\<rparr>))))
     = Inr ([LogDownload ''./b.xml'' 1 2 True], Some CheckingForUpdate,
            [\<lparr>completed = 1, batch_count = 2, success = 1\<rparr>])"
  by (simp add: onRepositoryList_def downloadFiles_def doDownloadFile_def Let_def
      newFsm_def newUpdateRepository_def emit_def cacheLocation_def
      s3GetObjectDone_def getObjectDone_def onRepositoryDownload_def
      injectEvent.simps enterState.simps bucketName_def)


section \<open>Product details and debug session: the code at two inputs\<close>

text \<open>
  C9 at the input \<open>["Product Type"]\<close>: the line carries a label of the lookup table
  and no colon, and \<open>npconfigToProductDetails\<close> throws a TypeError instead of returning
  a record.
\<close>

theorem npconfigToProductDetails_throws:
  "npconfigToProductDetails [''Product Type''] = Inl TypeError"
  by (simp add: npconfigToProductDetails_def productLine_def productPropertyLookup_def
      trim_def isWhiteSpace_def)

text \<open>
  What \<open>onData\<close> does once the last accumulated line is the prompt: the whole line
  list goes to the callback, the port is closed and cleared, and with a device
  configured the next \<open>runCommand\<close> is accepted.
\<close>

lemma onData_prompt_completes:
  assumes "last (split LF (responseData arm @ trim data)) = ''-''"
  shows "onData data arm =
      (arm\<lparr>responseData := responseData arm @ trim data, port := None, dataCallback := None\<rparr>,
       (case dataCallback arm of
          Some cb \<Rightarrow> [DataCall cb (split LF (responseData arm @ trim data))]
        | None \<Rightarrow> []) @
       (case port arm of Some p \<Rightarrow> [SerialIO PortClose] | None \<Rightarrow> []))"
    and "device arm = Some dev \<Longrightarrow> fst (runCommand command cb2 (fst (onData data arm)))"
  using assms split_nonempty [of LF "responseData arm @ trim data"]
  by (simp_all add: onData_def runCommand_def Let_def split: option.splits)

text \<open>
  C5 at a response whose first line \<open>bl1 v0.0.0  26441\<close> arrives in the two chunks
  \<open>"bl1 "\<close> and \<open>"v0.0.0  26441\n-"\<close>, split mid-line after the blank: the callback
  is given the line \<open>bl1v0.0.0  26441\<close>, where the response split into lines has
  \<open>bl1 v0.0.0  26441\<close>.
\<close>

theorem onData_split_after_blank:
  "snd (onData (''v0.0.0  26441'' @ [LF] @ ''-'')
     (fst (onData ''bl1 ''
        (fst (snd (runCommand ''version host'' (Some (0::nat))
           (setDevice ''/dev/ttyUSB0'' newARMMfg)))))))
   = [DataCall 0 [''bl1v0.0.0  26441'', ''-''], SerialIO PortClose]
  \<and> split LF (''bl1 '' @ ''v0.0.0  26441'' @ [LF] @ ''-'') = [''bl1 v0.0.0  26441'', ''-'']"
  by (simp add: onData_def runCommand_def setDevice_def newARMMfg_def Let_def trim_def
      isWhiteSpace_def LF_def)

end
